theory Spec2Isabelle
  imports Main
begin

section \<open>blenvm: name-keyed lookups of FunctionBVM (bvm_function.cc)\<close>

text \<open>
  An \<open>Argument\<close> is built by \<open>Argument(typedesc, name, stack_offset)\<close>; a
  \<open>FunctionBVM\<close> owns two \<open>ArgumentList\<close>s, filled by \<open>push_back\<close>.
  The type descriptor is kept as its name.
\<close>

record Argument =
  typedesc :: string
  arg_name :: string
  stack_offset :: nat

record FunctionBVM =
  m_arguments :: "Argument list"
  m_return_values :: "Argument list"

datatype bvm_error = EndIteratorDereferenced

text \<open>
  The loop shared by \<open>argument(name)\<close> and \<open>return_value(name)\<close>: walk from
  \<open>begin()\<close> to \<open>end()\<close>, return the first element whose name equals the
  key; after the loop the source returns \<open>*end()\<close>, a read past the last element,
  which the model reports as an error value.
\<close>

fun find_by_name :: "Argument list \<Rightarrow> string \<Rightarrow> bvm_error + Argument" where
  "find_by_name [] n = Inl EndIteratorDereferenced"
| "find_by_name (a # rest) n = (if arg_name a = n then Inr a else find_by_name rest n)"

definition argument_by_name :: "FunctionBVM \<Rightarrow> string \<Rightarrow> bvm_error + Argument" where
  "argument_by_name f n = find_by_name (m_arguments f) n"

definition return_value_by_name :: "FunctionBVM \<Rightarrow> string \<Rightarrow> bvm_error + Argument" where
  "return_value_by_name f n = find_by_name (m_return_values f) n"

definition add_argument :: "FunctionBVM \<Rightarrow> string \<Rightarrow> string \<Rightarrow> nat \<Rightarrow> FunctionBVM" where
  "add_argument f td n off =
     f\<lparr>m_arguments := m_arguments f @ [\<lparr>typedesc = td, arg_name = n, stack_offset = off\<rparr>]\<rparr>"

definition add_return_value :: "FunctionBVM \<Rightarrow> string \<Rightarrow> string \<Rightarrow> nat \<Rightarrow> FunctionBVM" where
  "add_return_value f td n off =
     f\<lparr>m_return_values := m_return_values f @ [\<lparr>typedesc = td, arg_name = n, stack_offset = off\<rparr>]\<rparr>"

section \<open>Function tree side: sockets, nodes and the property reader\<close>

text \<open>
  \<open>PointerRNA\<close> is the host's property reader, taken as given: string properties by
  name (\<open>RNA_string_get\<close>, \<open>RNA_string_get_alloc\<close>) and collection properties by
  name, each item answering \<open>RNA_enum_get\<close> for its own property names
  (\<open>RNA_BEGIN\<close> \dots \<open>RNA_END\<close> visits the items in order).
\<close>

record PointerRNA =
  rna_strings :: "string \<Rightarrow> string"
  rna_collections :: "string \<Rightarrow> (string \<Rightarrow> int) list"

definition RNA_string_get :: "PointerRNA \<Rightarrow> string \<Rightarrow> string" where
  "RNA_string_get ptr prop_name = rna_strings ptr prop_name"

definition RNA_enum_get :: "(string \<Rightarrow> int) \<Rightarrow> string \<Rightarrow> int" where
  "RNA_enum_get itemptr prop_name = itemptr prop_name"

datatype fn_error = AssertionFailed | IndexOutOfRange | LookupFailed | BufferOverflow

section \<open>FNodeMFNetworkBuilder::get_list_base_variadic_states (builder.cc)\<close>

text \<open>
  The body of the \<open>RNA_BEGIN\<close> loop, with the vector \<open>states\<close> as accumulator.
  \<open>BLI_assert(false)\<close> aborts in a debug build and is compiled away in a release
  build, where the loop simply goes on to the next item.
\<close>

fun variadic_states_loop :: "bool \<Rightarrow> (string \<Rightarrow> int) list \<Rightarrow> bool list \<Rightarrow> fn_error + bool list" where
  "variadic_states_loop debug [] states = Inr states"
| "variadic_states_loop debug (itemptr # rest) states =
     (let state = RNA_enum_get itemptr ''state'' in
      if state = 0 then variadic_states_loop debug rest (states @ [False])
      else if state = 1 then variadic_states_loop debug rest (states @ [True])
      else if debug then Inl AssertionFailed
      else variadic_states_loop debug rest states)"

definition get_list_base_variadic_states :: "bool \<Rightarrow> PointerRNA \<Rightarrow> string \<Rightarrow> fn_error + bool list" where
  "get_list_base_variadic_states debug rna prop_name =
     variadic_states_loop debug (rna_collections rna prop_name) []"

text \<open>The "state" enum values of the records of a collection property, in record order.\<close>

definition record_states :: "PointerRNA \<Rightarrow> string \<Rightarrow> int list" where
  "record_states rna prop_name = map (\<lambda>itemptr. RNA_enum_get itemptr ''state'') (rna_collections rna prop_name)"

section \<open>Function tree sockets and nodes\<close>

text \<open>
  A data type of the network is compared with \<open>==\<close> only; it is kept as a tagged
  name. An \<open>FSocket\<close> has a stable id in its tree, a name and a direction; an
  \<open>FNode\<close> has a name, its input and output sockets in order, and its properties.
\<close>

datatype mf_data_type = DataType string

record FSocket =
  fsocket_id :: nat
  fsocket_name :: string
  fsocket_is_input :: bool

record FNode =
  fnode_name :: string
  fnode_inputs :: "FSocket list"
  fnode_outputs :: "FSocket list"
  fnode_rna :: PointerRNA

section \<open>The in-progress network (MFNetworkBuilder)\<close>

text \<open>
  Modelled from the spec: \<open>MultiFunction\<close>, \<open>MFBuilderNode\<close>,
  \<open>MFBuilderSocket\<close> and \<open>MFNetworkBuilder\<close> are declared outside the files
  at hand. The spec gives a function node "fixed input/output data types", a dummy node
  sockets that are "typed and named per socket", every socket "exactly one network node"
  and a "stable integer id". A callable is kept as its name and signature; a node holds
  the ids of its sockets in order; the builder holds its nodes and \<open>sockets_by_id\<close>.
\<close>

record MultiFunction =
  fn_name :: string
  fn_inputs :: "(string \<times> mf_data_type) list"
  fn_outputs :: "(string \<times> mf_data_type) list"

record MFBuilderSocket =
  socket_name :: string
  socket_data_type :: mf_data_type
  socket_is_output :: bool
  socket_node :: nat

record MFBuilderNode =
  node_id :: nat
  node_name :: string
  node_is_dummy :: bool
  node_inputs :: "nat list"
  node_outputs :: "nat list"

record MFNetworkBuilder =
  nb_nodes :: "MFBuilderNode list"
  sockets_by_id :: "MFBuilderSocket list"

definition new_socket :: "nat \<Rightarrow> bool \<Rightarrow> string \<times> mf_data_type \<Rightarrow> MFBuilderSocket" where
  "new_socket nid is_out p =
     \<lparr>socket_name = fst p, socket_data_type = snd p, socket_is_output = is_out, socket_node = nid\<rparr>"

text \<open>
  Modelled from the spec: inserting a node appends it and its sockets to the builder
  ("inserts a new function node"); the new sockets take the next free ids, inputs
  first, then outputs.
\<close>

definition insert_node ::
  "MFNetworkBuilder \<Rightarrow> string \<Rightarrow> bool \<Rightarrow> (string \<times> mf_data_type) list \<Rightarrow> (string \<times> mf_data_type) list
     \<Rightarrow> MFNetworkBuilder \<times> MFBuilderNode" where
  "insert_node nb nm dummy ins outs =
     (let nid = length (nb_nodes nb);
          base = length (sockets_by_id nb);
          node = \<lparr>node_id = nid, node_name = nm, node_is_dummy = dummy,
                  node_inputs = [base ..< base + length ins],
                  node_outputs = [base + length ins ..< base + length ins + length outs]\<rparr>
      in (nb\<lparr>nb_nodes := nb_nodes nb @ [node],
               sockets_by_id := sockets_by_id nb @ map (new_socket nid False) ins @ map (new_socket nid True) outs\<rparr>,
          node))"

definition MFNetworkBuilder_add_function :: "MFNetworkBuilder \<Rightarrow> MultiFunction \<Rightarrow> MFNetworkBuilder \<times> MFBuilderNode" where
  "MFNetworkBuilder_add_function nb fn = insert_node nb (fn_name fn) False (fn_inputs fn) (fn_outputs fn)"

definition MFNetworkBuilder_add_dummy ::
  "MFNetworkBuilder \<Rightarrow> string \<Rightarrow> mf_data_type list \<Rightarrow> mf_data_type list \<Rightarrow> string list \<Rightarrow> string list
     \<Rightarrow> MFNetworkBuilder \<times> MFBuilderNode" where
  "MFNetworkBuilder_add_dummy nb nm input_types output_types input_names output_names =
     insert_node nb nm True (zip input_names input_types) (zip output_names output_types)"

section \<open>FunctionTreeMFNetworkBuilder (builder.cc)\<close>

text \<open>
  The members the functions below read or write: the tree's socket count, the
  preprocessed per-socket data types, the two type-name tables of the mappings, the
  forward Socket Map \<open>m_socket_by_fsocket\<close> and the network builder.
\<close>

record FunctionTreeMFNetworkBuilder =
  tree_socket_count :: nat
  fsocket_data_types :: "nat \<Rightarrow> mf_data_type option"
  data_type_by_type_name :: "string \<Rightarrow> mf_data_type option"
  cpp_type_by_type_name :: "string \<Rightarrow> string option"
  m_socket_by_fsocket :: "nat \<Rightarrow> nat list"
  m_builder :: MFNetworkBuilder

text \<open>
  The constructor: an empty Socket Map over the tree's sockets and an empty network.
\<close>

definition new_builder ::
  "nat \<Rightarrow> (nat \<Rightarrow> mf_data_type option) \<Rightarrow> (string \<Rightarrow> mf_data_type option) \<Rightarrow> (string \<Rightarrow> string option)
     \<Rightarrow> FunctionTreeMFNetworkBuilder" where
  "new_builder n types by_name cpp_by_name =
     \<lparr>tree_socket_count = n, fsocket_data_types = types, data_type_by_type_name = by_name,
      cpp_type_by_type_name = cpp_by_name, m_socket_by_fsocket = (\<lambda>_. []),
      m_builder = \<lparr>nb_nodes = [], sockets_by_id = []\<rparr>\<rparr>"

text \<open>
  Modelled from the spec: the inline helpers of the builder's header (not among the files
  at hand). The Socket Classifier: \<open>try_get_data_type\<close> "returns the resolved type if
  the socket is a data socket, absent otherwise", and \<open>is_data_socket\<close> is true iff
  the socket carries a value. The Socket Map: each mapped pair is recorded "graph socket
  id \<rightarrow> network socket id, appended, not overwritten"; a socket is mapped when it "has at
  least one mapping entry". The lookup for an input socket returns the list of its
  network sockets; the lookup for an output socket is used by the source as one socket
  reference, so it is defined when the socket has exactly one entry.
\<close>

definition try_get_data_type :: "FunctionTreeMFNetworkBuilder \<Rightarrow> FSocket \<Rightarrow> mf_data_type option" where
  "try_get_data_type b fsocket = fsocket_data_types b (fsocket_id fsocket)"

definition is_data_socket :: "FunctionTreeMFNetworkBuilder \<Rightarrow> FSocket \<Rightarrow> bool" where
  "is_data_socket b fsocket = (try_get_data_type b fsocket \<noteq> None)"

definition map_sockets :: "FunctionTreeMFNetworkBuilder \<Rightarrow> FSocket \<Rightarrow> nat \<Rightarrow> FunctionTreeMFNetworkBuilder" where
  "map_sockets b fsocket socket =
     b\<lparr>m_socket_by_fsocket :=
         (m_socket_by_fsocket b)(fsocket_id fsocket := m_socket_by_fsocket b (fsocket_id fsocket) @ [socket])\<rparr>"

definition fsocket_is_mapped :: "FunctionTreeMFNetworkBuilder \<Rightarrow> FSocket \<Rightarrow> bool" where
  "fsocket_is_mapped b fsocket = (m_socket_by_fsocket b (fsocket_id fsocket) \<noteq> [])"

definition lookup_socket_input :: "FunctionTreeMFNetworkBuilder \<Rightarrow> FSocket \<Rightarrow> nat list" where
  "lookup_socket_input b fsocket = m_socket_by_fsocket b (fsocket_id fsocket)"

definition lookup_socket_output :: "FunctionTreeMFNetworkBuilder \<Rightarrow> FSocket \<Rightarrow> nat option" where
  "lookup_socket_output b fsocket =
     (case m_socket_by_fsocket b (fsocket_id fsocket) of [socket] \<Rightarrow> Some socket | _ \<Rightarrow> None)"

text \<open>The data type of the network socket with a given id; none when no socket has the id.\<close>

definition data_type_of_socket :: "FunctionTreeMFNetworkBuilder \<Rightarrow> nat \<Rightarrow> mf_data_type option" where
  "data_type_of_socket b socket =
     (if socket < length (sockets_by_id (m_builder b))
      then Some (socket_data_type (sockets_by_id (m_builder b) ! socket)) else None)"

definition name_of_socket :: "FunctionTreeMFNetworkBuilder \<Rightarrow> nat \<Rightarrow> string option" where
  "name_of_socket b socket =
     (if socket < length (sockets_by_id (m_builder b))
      then Some (socket_name (sockets_by_id (m_builder b) ! socket)) else None)"

subsection \<open>map\_data\_sockets\<close>

text \<open>
  One of the two loops of \<open>map_data_sockets\<close>: \<open>sockets\<close> is \<open>node.inputs()\<close>
  (or \<open>node.outputs()\<close>) and \<open>k\<close> the counter \<open>data_inputs\<close>
  (\<open>data_outputs\<close>). Indexing the node's socket array past its end is reported as
  \<open>IndexOutOfRange\<close>. The counter is a \<open>uint\<close>; it never exceeds the number of
  sockets of one node, so it is kept as a natural number.
\<close>

fun map_data_sockets_loop ::
  "FunctionTreeMFNetworkBuilder \<Rightarrow> FSocket list \<Rightarrow> nat list \<Rightarrow> nat \<Rightarrow> fn_error + FunctionTreeMFNetworkBuilder" where
  "map_data_sockets_loop b [] sockets k = Inr b"
| "map_data_sockets_loop b (fsocket # rest) sockets k =
     (if is_data_socket b fsocket then
        (if k < length sockets
         then map_data_sockets_loop (map_sockets b fsocket (sockets ! k)) rest sockets (Suc k)
         else Inl IndexOutOfRange)
      else map_data_sockets_loop b rest sockets k)"

definition map_data_sockets ::
  "FunctionTreeMFNetworkBuilder \<Rightarrow> FNode \<Rightarrow> MFBuilderNode \<Rightarrow> fn_error + FunctionTreeMFNetworkBuilder" where
  "map_data_sockets b fnode node =
     (case map_data_sockets_loop b (fnode_inputs fnode) (node_inputs node) 0 of
        Inl e \<Rightarrow> Inl e
      | Inr b1 \<Rightarrow> map_data_sockets_loop b1 (fnode_outputs fnode) (node_outputs node) 0)"

subsection \<open>add\_function and add\_dummy\<close>

definition add_function ::
  "FunctionTreeMFNetworkBuilder \<Rightarrow> MultiFunction \<Rightarrow> FunctionTreeMFNetworkBuilder \<times> MFBuilderNode" where
  "add_function b fn =
     (let (nb, node) = MFNetworkBuilder_add_function (m_builder b) fn
      in (b\<lparr>m_builder := nb\<rparr>, node))"

definition add_function_fnode ::
  "FunctionTreeMFNetworkBuilder \<Rightarrow> MultiFunction \<Rightarrow> FNode
     \<Rightarrow> fn_error + (FunctionTreeMFNetworkBuilder \<times> MFBuilderNode)" where
  "add_function_fnode b fn fnode =
     (let (b1, node) = add_function b fn
      in case map_data_sockets b1 fnode node of
           Inl e \<Rightarrow> Inl e
         | Inr b2 \<Rightarrow> Inr (b2, node))"

text \<open>
  The two loops of \<open>add_dummy\<close> that fill \<open>input_types\<close>/\<open>input_names\<close> and
  \<open>output_types\<close>/\<open>output_names\<close>, with the two vectors as accumulators.
\<close>

fun collect_dummy_sockets ::
  "FunctionTreeMFNetworkBuilder \<Rightarrow> FSocket list \<Rightarrow> mf_data_type list \<Rightarrow> string list
     \<Rightarrow> mf_data_type list \<times> string list" where
  "collect_dummy_sockets b [] types names = (types, names)"
| "collect_dummy_sockets b (fsocket # rest) types names =
     (case try_get_data_type b fsocket of
        Some data_type \<Rightarrow> collect_dummy_sockets b rest (types @ [data_type]) (names @ [fsocket_name fsocket])
      | None \<Rightarrow> collect_dummy_sockets b rest types names)"

definition add_dummy ::
  "FunctionTreeMFNetworkBuilder \<Rightarrow> FNode \<Rightarrow> fn_error + (FunctionTreeMFNetworkBuilder \<times> MFBuilderNode)" where
  "add_dummy b fnode =
     (let (input_types, input_names) = collect_dummy_sockets b (fnode_inputs fnode) [] [];
          (output_types, output_names) = collect_dummy_sockets b (fnode_outputs fnode) [] [];
          (nb, node) = MFNetworkBuilder_add_dummy (m_builder b) (fnode_name fnode)
                         input_types output_types input_names output_names
      in case map_data_sockets (b\<lparr>m_builder := nb\<rparr>) fnode node of
           Inl e \<Rightarrow> Inl e
         | Inr b2 \<Rightarrow> Inr (b2, node))"

fun any_data_socket :: "FunctionTreeMFNetworkBuilder \<Rightarrow> FSocket list \<Rightarrow> bool" where
  "any_data_socket b [] = False"
| "any_data_socket b (fsocket # rest) = (if is_data_socket b fsocket then True else any_data_socket b rest)"

definition has_data_sockets :: "FunctionTreeMFNetworkBuilder \<Rightarrow> FNode \<Rightarrow> bool" where
  "has_data_sockets b fnode =
     (if any_data_socket b (fnode_inputs fnode) then True
      else if any_data_socket b (fnode_outputs fnode) then True
      else False)"

subsection \<open>The diagnostic pass\<close>

text \<open>
  Each function below is true when none of the \<open>BLI_assert\<close>s it reaches fails.
  \<open>assert_fnode_is_mapped_correctly\<close> does its work under \<open>#ifdef DEBUG\<close> only.
\<close>

definition assert_fsocket_is_mapped_correctly :: "FunctionTreeMFNetworkBuilder \<Rightarrow> FSocket \<Rightarrow> bool" where
  "assert_fsocket_is_mapped_correctly b fsocket =
     (fsocket_is_mapped b fsocket \<and>
      (case try_get_data_type b fsocket of
         None \<Rightarrow> False
       | Some fsocket_type \<Rightarrow>
           if fsocket_is_input fsocket then
             list_all (\<lambda>socket. data_type_of_socket b socket = Some fsocket_type) (lookup_socket_input b fsocket)
           else
             (case lookup_socket_output b fsocket of
                None \<Rightarrow> False
              | Some socket \<Rightarrow> data_type_of_socket b socket = Some fsocket_type)))"

fun assert_data_sockets_are_mapped_correctly :: "FunctionTreeMFNetworkBuilder \<Rightarrow> FSocket list \<Rightarrow> bool" where
  "assert_data_sockets_are_mapped_correctly b [] = True"
| "assert_data_sockets_are_mapped_correctly b (fsocket # rest) =
     (if is_data_socket b fsocket
      then assert_fsocket_is_mapped_correctly b fsocket \<and> assert_data_sockets_are_mapped_correctly b rest
      else assert_data_sockets_are_mapped_correctly b rest)"

definition assert_fnode_is_mapped_correctly :: "bool \<Rightarrow> FunctionTreeMFNetworkBuilder \<Rightarrow> FNode \<Rightarrow> bool" where
  "assert_fnode_is_mapped_correctly debug b fnode =
     (if debug then
        assert_data_sockets_are_mapped_correctly b (fnode_inputs fnode) \<and>
        assert_data_sockets_are_mapped_correctly b (fnode_outputs fnode)
      else True)"

subsection \<open>Type resolution from a node property\<close>

text \<open>
  Modelled from the spec: the lookup in a type-name table (a container declared outside
  the files at hand) "fails (returns a null/absent result or raises a lookup error) if
  the name is not present in the table"; \<open>cpp_type_by_name\<close> is the same lookup in
  the table of value-representation descriptors.
\<close>

definition table_lookup :: "(string \<Rightarrow> 'a option) \<Rightarrow> string \<Rightarrow> fn_error + 'a" where
  "table_lookup table key = (case table key of None \<Rightarrow> Inl LookupFailed | Some v \<Rightarrow> Inr v)"

definition cpp_type_by_name :: "FunctionTreeMFNetworkBuilder \<Rightarrow> string \<Rightarrow> fn_error + string" where
  "cpp_type_by_name b type_name = table_lookup (cpp_type_by_type_name b) type_name"

definition cpp_type_from_property :: "FunctionTreeMFNetworkBuilder \<Rightarrow> FNode \<Rightarrow> string \<Rightarrow> fn_error + string" where
  "cpp_type_from_property b fnode prop_name =
     (let type_name = RNA_string_get (fnode_rna fnode) prop_name
      in cpp_type_by_name b type_name)"

definition data_type_from_property :: "FunctionTreeMFNetworkBuilder \<Rightarrow> FNode \<Rightarrow> string \<Rightarrow> fn_error + mf_data_type" where
  "data_type_from_property b fnode prop_name =
     (let type_name = RNA_string_get (fnode_rna fnode) prop_name
      in table_lookup (data_type_by_type_name b) type_name)"

subsection \<open>get\_vectorized\_function\<close>

text \<open>
  Callables are passed and returned by reference. A reference is either one the caller
  holds already (\<open>Given\<close>) or the object at an index of the resource collector
  (\<open>Owned\<close>).
  Modelled from the spec: \<open>construct_fn<MF_SimpleVectorize>\<close> (a template of the
  builder's header) makes "a new callable" from the base function and the flags; the
  resource collector owns it.
\<close>

datatype fn_ref = Given nat | Owned nat

datatype resource = MF_SimpleVectorize fn_ref "bool list"

definition construct_fn_MF_SimpleVectorize :: "resource list \<Rightarrow> fn_ref \<Rightarrow> bool list \<Rightarrow> resource list \<times> fn_ref" where
  "construct_fn_MF_SimpleVectorize resources base_function input_is_vectorized =
     (resources @ [MF_SimpleVectorize base_function input_is_vectorized], Owned (length resources))"

text \<open>
  The loop over \<open>is_vectorized_prop_names\<close>. The string is read into \<open>char state[5]\<close>,
  which holds four characters and the terminator; a longer value overruns the buffer.
  The \<open>BLI_assert\<close> is checked in a debug build only.
\<close>

fun input_is_vectorized_loop :: "bool \<Rightarrow> PointerRNA \<Rightarrow> string list \<Rightarrow> bool list \<Rightarrow> fn_error + bool list" where
  "input_is_vectorized_loop debug rna [] input_is_vectorized = Inr input_is_vectorized"
| "input_is_vectorized_loop debug rna (prop_name # rest) input_is_vectorized =
     (let state = RNA_string_get rna prop_name in
      if 4 < length state then Inl BufferOverflow
      else if debug \<and> \<not> (state = ''BASE'' \<or> state = ''LIST'') then Inl AssertionFailed
      else input_is_vectorized_loop debug rna rest (input_is_vectorized @ [state = ''LIST'']))"

definition get_vectorized_function ::
  "bool \<Rightarrow> PointerRNA \<Rightarrow> resource list \<Rightarrow> fn_ref \<Rightarrow> string list \<Rightarrow> fn_error + (resource list \<times> fn_ref)" where
  "get_vectorized_function debug rna resources base_function is_vectorized_prop_names =
     (case input_is_vectorized_loop debug rna is_vectorized_prop_names [] of
        Inl e \<Rightarrow> Inl e
      | Inr input_is_vectorized \<Rightarrow>
          if True \<in> set input_is_vectorized
          then Inr (construct_fn_MF_SimpleVectorize resources base_function input_is_vectorized)
          else Inr (resources, base_function))"

subsection \<open>build\<close>

text \<open>
  The result of \<open>build\<close>: the finished network with the forward table and the
  reverse table \<open>fsocket_by_socket\<close>. An entry of the reverse table is \<open>None\<close>
  where the source holds the sentinel \<open>IdMultiMap_UNMAPPED\<close>.
  Modelled from the spec: the finished network takes over "the accumulated node/socket
  structure", so it has one socket id per socket of the builder.
\<close>

record FunctionTreeMFNetwork =
  network :: MFNetworkBuilder
  socket_by_fsocket :: "nat \<Rightarrow> nat list"
  fsocket_by_socket :: "nat option list"

text \<open>
  The inner loop over \<open>mapped_ids\<close> and the outer loop over the tree's socket ids.
  A write past the end of the reverse table is reported as \<open>IndexOutOfRange\<close>.
\<close>

fun build_mapped_ids_loop :: "nat \<Rightarrow> nat list \<Rightarrow> nat option list \<Rightarrow> fn_error + nat option list" where
  "build_mapped_ids_loop fid [] table = Inr table"
| "build_mapped_ids_loop fid (mapped_id # rest) table =
     (if mapped_id < length table
      then build_mapped_ids_loop fid rest (table[mapped_id := Some fid])
      else Inl IndexOutOfRange)"

fun build_fsocket_ids_loop :: "(nat \<Rightarrow> nat list) \<Rightarrow> nat list \<Rightarrow> nat option list \<Rightarrow> fn_error + nat option list" where
  "build_fsocket_ids_loop m [] table = Inr table"
| "build_fsocket_ids_loop m (fid # rest) table =
     (case build_mapped_ids_loop fid (m fid) table of
        Inl e \<Rightarrow> Inl e
      | Inr table' \<Rightarrow> build_fsocket_ids_loop m rest table')"

definition build :: "FunctionTreeMFNetworkBuilder \<Rightarrow> fn_error + FunctionTreeMFNetwork" where
  "build b =
     (let net = m_builder b;
          table0 = replicate (length (sockets_by_id net)) None
      in case build_fsocket_ids_loop (m_socket_by_fsocket b) [0 ..< tree_socket_count b] table0 of
           Inl e \<Rightarrow> Inl e
         | Inr table \<Rightarrow>
             Inr \<lparr>network = net, socket_by_fsocket = m_socket_by_fsocket b, fsocket_by_socket = table\<rparr>)"

section \<open>Views used to state the properties\<close>

text \<open>
  \<open>data_sockets\<close> is the ordered sub-list of the data sockets of a socket list.
  \<open>paired_sockets ds ss f\<close> lists, in order, the network sockets that stand at the
  same position in \<open>ss\<close> as a socket with id \<open>f\<close> stands in \<open>ds\<close>.
\<close>

definition data_sockets :: "FunctionTreeMFNetworkBuilder \<Rightarrow> FSocket list \<Rightarrow> FSocket list" where
  "data_sockets b fsockets = filter (is_data_socket b) fsockets"

definition paired_sockets :: "FSocket list \<Rightarrow> nat list \<Rightarrow> nat \<Rightarrow> nat list" where
  "paired_sockets fsockets sockets f = map snd (filter (\<lambda>p. fsocket_id (fst p) = f) (zip fsockets sockets))"

text \<open>
  A reference is valid when it is the caller's or points at an object the resource
  collector holds. The flags of a list of properties can be read when each value fits
  the buffer and, in a debug build, passes the assertion.
\<close>

definition valid_ref :: "resource list \<Rightarrow> fn_ref \<Rightarrow> bool" where
  "valid_ref resources r = (case r of Given _ \<Rightarrow> True | Owned i \<Rightarrow> i < length resources)"

definition flags_readable :: "bool \<Rightarrow> PointerRNA \<Rightarrow> string list \<Rightarrow> bool" where
  "flags_readable debug rna prop_names =
     list_all (\<lambda>p. length (RNA_string_get rna p) \<le> 4 \<and>
                    (debug \<longrightarrow> RNA_string_get rna p = ''BASE'' \<or> RNA_string_get rna p = ''LIST''))
              prop_names"

text \<open>
  The graph socket ids, in the scan order of \<open>build\<close>, whose forward mapping
  contains a network socket id; and the condition that every mapped id of the tree's
  sockets is the id of a socket of the network.
\<close>

definition reverse_candidates :: "FunctionTreeMFNetworkBuilder \<Rightarrow> nat \<Rightarrow> nat list" where
  "reverse_candidates b socket =
     filter (\<lambda>f. socket \<in> set (m_socket_by_fsocket b f)) [0 ..< tree_socket_count b]"

definition mapped_ids_in_range :: "FunctionTreeMFNetworkBuilder \<Rightarrow> bool" where
  "mapped_ids_in_range b =
     (\<forall>f < tree_socket_count b. \<forall>socket \<in> set (m_socket_by_fsocket b f).
         socket < length (sockets_by_id (m_builder b)))"

text \<open>
  The type equality of the spec: every forward-mapped pair joins a data socket of the
  graph and an existing network socket of the same data type. A graph socket is mapped
  correctly when it has at least one entry and every network socket it maps to has the
  data type the classifier gives for it. A callable matches a graph node when its k-th
  input (output) has the data type of the node's k-th data input (output).
\<close>

definition type_equality_invariant :: "FunctionTreeMFNetworkBuilder \<Rightarrow> bool" where
  "type_equality_invariant b =
     (\<forall>f. \<forall>socket \<in> set (m_socket_by_fsocket b f).
         \<exists>ty. data_type_of_socket b socket = Some ty \<and> fsocket_data_types b f = Some ty)"

definition socket_mapped_correctly :: "FunctionTreeMFNetworkBuilder \<Rightarrow> FSocket \<Rightarrow> bool" where
  "socket_mapped_correctly b fsocket =
     (m_socket_by_fsocket b (fsocket_id fsocket) \<noteq> [] \<and>
      (\<forall>socket \<in> set (m_socket_by_fsocket b (fsocket_id fsocket)).
          data_type_of_socket b socket = try_get_data_type b fsocket))"

definition signature_matches :: "FunctionTreeMFNetworkBuilder \<Rightarrow> MultiFunction \<Rightarrow> FNode \<Rightarrow> bool" where
  "signature_matches b fn fnode =
     (length (data_sockets b (fnode_inputs fnode)) \<le> length (fn_inputs fn) \<and>
      (\<forall>k < length (data_sockets b (fnode_inputs fnode)).
          try_get_data_type b (data_sockets b (fnode_inputs fnode) ! k) = Some (snd (fn_inputs fn ! k))) \<and>
      length (data_sockets b (fnode_outputs fnode)) \<le> length (fn_outputs fn) \<and>
      (\<forall>k < length (data_sockets b (fnode_outputs fnode)).
          try_get_data_type b (data_sockets b (fnode_outputs fnode) ! k) = Some (snd (fn_outputs fn ! k))))"

text \<open>
  The single-mapping condition for a set of graph output socket ids: each has at most
  one entry in the Socket Map. A graph node is fresh for mapping when none of its data
  inputs is among those ids, and its data outputs are among them, have no entry yet and
  have distinct ids.
\<close>

definition output_sockets_single :: "FunctionTreeMFNetworkBuilder \<Rightarrow> nat set \<Rightarrow> bool" where
  "output_sockets_single b output_ids = (\<forall>f \<in> output_ids. length (m_socket_by_fsocket b f) \<le> 1)"

definition fresh_for_mapping :: "FunctionTreeMFNetworkBuilder \<Rightarrow> nat set \<Rightarrow> FNode \<Rightarrow> bool" where
  "fresh_for_mapping b output_ids fnode =
     (fsocket_id ` set (data_sockets b (fnode_inputs fnode)) \<inter> output_ids = {} \<and>
      fsocket_id ` set (data_sockets b (fnode_outputs fnode)) \<subseteq> output_ids \<and>
      (\<forall>fsocket \<in> set (data_sockets b (fnode_outputs fnode)). m_socket_by_fsocket b (fsocket_id fsocket) = []) \<and>
      distinct (map fsocket_id (data_sockets b (fnode_outputs fnode))))"

section \<open>Concrete inputs\<close>

text \<open>
  A function with two arguments named \<open>x\<close> (the first a float at offset 0), one
  named \<open>y\<close>, and one return value named \<open>result\<close>.
\<close>

definition example_bvm :: FunctionBVM where
  "example_bvm =
     add_return_value
       (add_argument
          (add_argument
             (add_argument \<lparr>m_arguments = [], m_return_values = []\<rparr> ''float'' ''x'' 0)
             ''float'' ''y'' 1)
          ''int'' ''x'' 2)
       ''float'' ''result'' 3"

text \<open>
  Node properties: a collection \<open>variadic\<close> of four records with states 0, 1, 2, 1,
  a collection \<open>inputs\<close> with states 0, 1, and string properties.
\<close>

definition example_rna :: PointerRNA where
  "example_rna =
     \<lparr>rna_strings = (\<lambda>p. if p = ''use_list__a'' then ''BASE'' else if p = ''use_list__b'' then ''LIST''
                         else if p = ''data_type'' then ''Float'' else []),
      rna_collections = (\<lambda>p. if p = ''variadic'' then map (\<lambda>v q. if q = ''state'' then v else 0) [0, 1, 2, 1]
                             else if p = ''inputs'' then map (\<lambda>v q. if q = ''state'' then v else 0) [0, 1]
                             else [])\<rparr>"

text \<open>
  A tree with four sockets: 0 and 3 carry a float, 2 an int, 1 no data. Node \<open>N\<close>
  has the inputs a, b, c (ids 0, 1, 2) and the output r (id 3); the callable \<open>f\<close>
  takes a float and an int and returns a float.
\<close>

definition example_types :: "nat \<Rightarrow> mf_data_type option" where
  "example_types i =
     (if i = 0 then Some (DataType ''Float'')
      else if i = 2 then Some (DataType ''Int'')
      else if i = 3 then Some (DataType ''Float'')
      else None)"

definition example_builder :: FunctionTreeMFNetworkBuilder where
  "example_builder =
     new_builder 4 example_types
       (\<lambda>n. if n = ''Float'' then Some (DataType ''Float'') else if n = ''Int'' then Some (DataType ''Int'') else None)
       (\<lambda>n. if n = ''Float'' then Some ''float'' else if n = ''Int'' then Some ''int'' else None)"

definition example_fnode :: FNode where
  "example_fnode =
     \<lparr>fnode_name = ''N'',
      fnode_inputs = [\<lparr>fsocket_id = 0, fsocket_name = ''a'', fsocket_is_input = True\<rparr>,
                      \<lparr>fsocket_id = 1, fsocket_name = ''b'', fsocket_is_input = True\<rparr>,
                      \<lparr>fsocket_id = 2, fsocket_name = ''c'', fsocket_is_input = True\<rparr>],
      fnode_outputs = [\<lparr>fsocket_id = 3, fsocket_name = ''r'', fsocket_is_input = False\<rparr>],
      fnode_rna = example_rna\<rparr>"

definition example_fn :: MultiFunction where
  "example_fn =
     \<lparr>fn_name = ''f'',
      fn_inputs = [(''a'', DataType ''Float''), (''c'', DataType ''Int'')],
      fn_outputs = [(''r'', DataType ''Float'')]\<rparr>"

text \<open>
  One network socket reached from two graph sockets: the callable \<open>g\<close> with one
  float input is added for node \<open>P\<close> (input socket 0), and the same network node
  is then mapped for node \<open>Q\<close> (input socket 3) by \<open>map_data_sockets\<close>.
\<close>

definition example_unary_fn :: MultiFunction where
  "example_unary_fn = \<lparr>fn_name = ''g'', fn_inputs = [(''v'', DataType ''Float'')], fn_outputs = []\<rparr>"

definition example_fnode_p :: FNode where
  "example_fnode_p =
     \<lparr>fnode_name = ''P'',
      fnode_inputs = [\<lparr>fsocket_id = 0, fsocket_name = ''a'', fsocket_is_input = True\<rparr>],
      fnode_outputs = [], fnode_rna = example_rna\<rparr>"

definition example_fnode_q :: FNode where
  "example_fnode_q =
     \<lparr>fnode_name = ''Q'',
      fnode_inputs = [\<lparr>fsocket_id = 3, fsocket_name = ''d'', fsocket_is_input = True\<rparr>],
      fnode_outputs = [], fnode_rna = example_rna\<rparr>"

definition shared_socket_builder :: FunctionTreeMFNetworkBuilder where
  "shared_socket_builder =
     (case add_function_fnode example_builder example_unary_fn example_fnode_p of
        Inl e \<Rightarrow> example_builder
      | Inr (b1, node) \<Rightarrow>
          (case map_data_sockets b1 example_fnode_q node of
             Inl e \<Rightarrow> b1
           | Inr b2 \<Rightarrow> b2))"

text \<open>A graph node whose only socket (id 1) carries no data.\<close>

definition example_fnode_control :: FNode where
  "example_fnode_control =
     \<lparr>fnode_name = ''C'',
      fnode_inputs = [\<lparr>fsocket_id = 1, fsocket_name = ''b'', fsocket_is_input = True\<rparr>],
      fnode_outputs = [], fnode_rna = example_rna\<rparr>"

text \<open>A callable with one int input; node \<open>P\<close> has one float data input.\<close>

definition example_int_fn :: MultiFunction where
  "example_int_fn = \<lparr>fn_name = ''h'', fn_inputs = [(''v'', DataType ''Int'')], fn_outputs = []\<rparr>"

text \<open>The builder after \<open>add_function\<close> of that callable for node \<open>P\<close>.\<close>

definition mismatched_builder :: FunctionTreeMFNetworkBuilder where
  "mismatched_builder =
     (case add_function_fnode example_builder example_int_fn example_fnode_p of
        Inl e \<Rightarrow> example_builder
      | Inr (b', node) \<Rightarrow> b')"

text \<open>The example builder after one and after two calls of \<open>add_dummy\<close> for node \<open>N\<close>.\<close>

definition once_dummy_builder :: FunctionTreeMFNetworkBuilder where
  "once_dummy_builder =
     (case add_dummy example_builder example_fnode of
        Inl e \<Rightarrow> example_builder
      | Inr (b', node) \<Rightarrow> b')"

definition twice_dummy_builder :: FunctionTreeMFNetworkBuilder where
  "twice_dummy_builder =
     (case add_dummy once_dummy_builder example_fnode of
        Inl e \<Rightarrow> once_dummy_builder
      | Inr (b', node) \<Rightarrow> b')"

section \<open>Properties\<close>

subsection \<open>Name-keyed lookups\<close>

lemma find_by_name_present:
  "\<exists>a \<in> set args. arg_name a = n \<Longrightarrow>
   \<exists>i < length args. find_by_name args n = Inr (args ! i) \<and> arg_name (args ! i) = n \<and>
       (\<forall>j < i. arg_name (args ! j) \<noteq> n)"
proof (induction args)
  case Nil
  then show ?case by simp
next
  case (Cons a rest)
  show ?case
  proof (cases "arg_name a = n")
    case True
    then have "find_by_name (a # rest) n = Inr ((a # rest) ! 0) \<and> arg_name ((a # rest) ! 0) = n"
      by simp
    then show ?thesis by blast
  next
    case False
    with Cons.prems have "\<exists>b \<in> set rest. arg_name b = n" by auto
    from Cons.IH [OF this] obtain i where i: "i < length rest"
      "find_by_name rest n = Inr (rest ! i)" "arg_name (rest ! i) = n"
      "\<forall>j < i. arg_name (rest ! j) \<noteq> n" by blast
    have "\<forall>j < Suc i. arg_name ((a # rest) ! j) \<noteq> n"
      using False i(4) by (auto simp: nth_Cons split: nat.splits)
    with i False have "Suc i < length (a # rest) \<and> find_by_name (a # rest) n = Inr ((a # rest) ! Suc i) \<and>
        arg_name ((a # rest) ! Suc i) = n \<and> (\<forall>j < Suc i. arg_name ((a # rest) ! j) \<noteq> n)"
      by simp
    then show ?thesis by blast
  qed
qed

lemma find_by_name_absent:
  "\<not> (\<exists>a \<in> set args. arg_name a = n) \<Longrightarrow> find_by_name args n = Inl EndIteratorDereferenced"
  by (induction args) auto

text \<open>
  C10: \<open>argument(name)\<close> and \<open>return_value(name)\<close> return the first stored entry
  whose name equals the key (the entry at the least index with that name); when no
  entry has the name, the end iterator is dereferenced, so a well-defined result exists
  exactly when some entry with the name is present.
\<close>

theorem bvm_lookup_by_name_first_match:
  "((\<exists>a \<in> set (m_arguments f). arg_name a = n) \<longrightarrow>
      (\<exists>i < length (m_arguments f). argument_by_name f n = Inr (m_arguments f ! i) \<and>
          arg_name (m_arguments f ! i) = n \<and> (\<forall>j < i. arg_name (m_arguments f ! j) \<noteq> n))) \<and>
   (\<not> (\<exists>a \<in> set (m_arguments f). arg_name a = n) \<longrightarrow>
      argument_by_name f n = Inl EndIteratorDereferenced) \<and>
   ((\<exists>a \<in> set (m_return_values f). arg_name a = n) \<longrightarrow>
      (\<exists>i < length (m_return_values f). return_value_by_name f n = Inr (m_return_values f ! i) \<and>
          arg_name (m_return_values f ! i) = n \<and> (\<forall>j < i. arg_name (m_return_values f ! j) \<noteq> n))) \<and>
   (\<not> (\<exists>a \<in> set (m_return_values f). arg_name a = n) \<longrightarrow>
      return_value_by_name f n = Inl EndIteratorDereferenced)"
  unfolding argument_by_name_def return_value_by_name_def
  using find_by_name_present find_by_name_absent by blast

theorem bvm_lookup_by_name_first_match_witness:
  "(\<exists>a \<in> set (m_arguments example_bvm). arg_name a = ''x'') \<and>
   (\<exists>i < length (m_arguments example_bvm).
       argument_by_name example_bvm ''x'' = Inr (m_arguments example_bvm ! i) \<and>
       arg_name (m_arguments example_bvm ! i) = ''x'' \<and>
       (\<forall>j < i. arg_name (m_arguments example_bvm ! j) \<noteq> ''x'')) \<and>
   \<not> (\<exists>a \<in> set (m_return_values example_bvm). arg_name a = ''x'') \<and>
   return_value_by_name example_bvm ''x'' = Inl EndIteratorDereferenced"
proof -
  have present: "\<exists>a \<in> set (m_arguments example_bvm). arg_name a = ''x''"
    by (simp add: example_bvm_def add_argument_def add_return_value_def)
  have absent: "\<not> (\<exists>a \<in> set (m_return_values example_bvm). arg_name a = ''x'')"
    by (simp add: example_bvm_def add_argument_def add_return_value_def)
  from bvm_lookup_by_name_first_match [of example_bvm "''x''"] present absent
  show ?thesis by blast
qed

subsection \<open>Variadic states\<close>

lemma variadic_states_loop_valid:
  "list_all (\<lambda>s. s = 0 \<or> s = 1) (map (\<lambda>itemptr. RNA_enum_get itemptr ''state'') items) \<Longrightarrow>
   variadic_states_loop debug items acc =
     Inr (acc @ map (\<lambda>s. s = 1) (map (\<lambda>itemptr. RNA_enum_get itemptr ''state'') items))"
  by (induction items arbitrary: acc) auto

lemma variadic_states_loop_release:
  "variadic_states_loop False items acc =
     Inr (acc @ map (\<lambda>s. s = 1)
                  (filter (\<lambda>s. s = 0 \<or> s = 1) (map (\<lambda>itemptr. RNA_enum_get itemptr ''state'') items)))"
  by (induction items arbitrary: acc) (auto simp: Let_def)

lemma variadic_states_loop_debug:
  "\<not> list_all (\<lambda>s. s = 0 \<or> s = 1) (map (\<lambda>itemptr. RNA_enum_get itemptr ''state'') items) \<Longrightarrow>
   variadic_states_loop True items acc = Inl AssertionFailed"
  by (induction items arbitrary: acc) (auto simp: Let_def)

lemma filter_shorter:
  "\<not> list_all P xs \<Longrightarrow> length (filter P xs) < length xs"
  by (induction xs) (auto simp: less_Suc_eq_le)

text \<open>
  C9: \<open>get_list_base_variadic_states\<close> returns one boolean per property record whose
  "state" is 0 (false) or 1 (true), in record order. When every record is 0 or 1 the
  vector has exactly one element per record. A record with any other state fails the
  assertion in a debug build; in a release build it contributes no element, so the
  vector is shorter than the record list and its positions no longer line up.
\<close>

theorem get_list_base_variadic_states_spec:
  "(list_all (\<lambda>s. s = 0 \<or> s = 1) (record_states rna prop_name) \<longrightarrow>
      get_list_base_variadic_states debug rna prop_name =
        Inr (map (\<lambda>s. s = 1) (record_states rna prop_name))) \<and>
   (\<not> list_all (\<lambda>s. s = 0 \<or> s = 1) (record_states rna prop_name) \<longrightarrow>
      get_list_base_variadic_states True rna prop_name = Inl AssertionFailed \<and>
      length (filter (\<lambda>s. s = 0 \<or> s = 1) (record_states rna prop_name)) < length (record_states rna prop_name)) \<and>
   get_list_base_variadic_states False rna prop_name =
     Inr (map (\<lambda>s. s = 1) (filter (\<lambda>s. s = 0 \<or> s = 1) (record_states rna prop_name)))"
  unfolding get_list_base_variadic_states_def record_states_def
  using variadic_states_loop_valid [of "rna_collections rna prop_name" debug "[]"]
    variadic_states_loop_debug [of "rna_collections rna prop_name" "[]"]
    variadic_states_loop_release [of "rna_collections rna prop_name" "[]"]
    filter_shorter [of "\<lambda>s. s = 0 \<or> s = 1" "map (\<lambda>itemptr. RNA_enum_get itemptr ''state'') (rna_collections rna prop_name)"]
  by simp

theorem get_list_base_variadic_states_spec_witness:
  "list_all (\<lambda>s. s = 0 \<or> s = 1) (record_states example_rna ''inputs'') \<and>
   get_list_base_variadic_states True example_rna ''inputs'' = Inr [False, True] \<and>
   \<not> list_all (\<lambda>s. s = 0 \<or> s = 1) (record_states example_rna ''variadic'') \<and>
   get_list_base_variadic_states True example_rna ''variadic'' = Inl AssertionFailed \<and>
   get_list_base_variadic_states False example_rna ''variadic'' = Inr [False, True, True] \<and>
   length (record_states example_rna ''variadic'') = 4"
proof -
  have inputs: "record_states example_rna ''inputs'' = [0, 1]"
    by (simp add: record_states_def example_rna_def RNA_enum_get_def)
  have variadic: "record_states example_rna ''variadic'' = [0, 1, 2, 1]"
    by (simp add: record_states_def example_rna_def RNA_enum_get_def)
  from get_list_base_variadic_states_spec [of example_rna "''inputs''" True]
    get_list_base_variadic_states_spec [of example_rna "''variadic''" True]
  show ?thesis
    unfolding inputs variadic by simp
qed

subsection \<open>Socket mapping\<close>

lemma is_data_socket_map_sockets [simp]:
  "is_data_socket (map_sockets b fsocket socket) = is_data_socket b"
  by (simp add: fun_eq_iff is_data_socket_def try_get_data_type_def map_sockets_def)

lemma paired_sockets_Nil [simp]: "paired_sockets [] sockets f = []"
  by (simp add: paired_sockets_def)

lemma paired_sockets_Cons:
  "paired_sockets (d # ds) (s # ss) f = (if fsocket_id d = f then s # paired_sockets ds ss f else paired_sockets ds ss f)"
  by (simp add: paired_sockets_def)

lemma try_get_data_type_socket_map [simp]:
  "try_get_data_type (b\<lparr>m_socket_by_fsocket := m\<rparr>) = try_get_data_type b"
  by (simp add: fun_eq_iff try_get_data_type_def)

lemma is_data_socket_socket_map [simp]:
  "is_data_socket (b\<lparr>m_socket_by_fsocket := m\<rparr>) = is_data_socket b"
  by (simp add: fun_eq_iff is_data_socket_def)

lemma data_sockets_socket_map [simp]:
  "data_sockets (b\<lparr>m_socket_by_fsocket := m\<rparr>) = data_sockets b"
  by (simp add: fun_eq_iff data_sockets_def)

lemma data_sockets_map_sockets [simp]:
  "data_sockets (map_sockets b fsocket socket) = data_sockets b"
  by (simp add: fun_eq_iff data_sockets_def)

lemma map_data_sockets_loop_result:
  "length (data_sockets b fsockets) + k \<le> length sockets \<Longrightarrow>
   map_data_sockets_loop b fsockets sockets k =
     Inr (b\<lparr>m_socket_by_fsocket :=
             (\<lambda>f. m_socket_by_fsocket b f @ paired_sockets (data_sockets b fsockets) (drop k sockets) f)\<rparr>)"
proof (induction fsockets arbitrary: b k)
  case Nil
  then show ?case by (simp add: data_sockets_def)
next
  case (Cons fsocket rest)
  show ?case
  proof (cases "is_data_socket b fsocket")
    case False
    with Cons show ?thesis by (simp add: data_sockets_def)
  next
    case True
    let ?b1 = "map_sockets b fsocket (sockets ! k)"
    from True Cons.prems have k: "k < length sockets"
      and rest: "length (data_sockets ?b1 rest) + Suc k \<le> length sockets"
      by (simp_all add: data_sockets_def)
    have drop: "drop k sockets = sockets ! k # drop (Suc k) sockets"
      using k by (simp add: Cons_nth_drop_Suc)
    have maps: "(\<lambda>f. m_socket_by_fsocket ?b1 f @ paired_sockets (data_sockets b rest) (drop (Suc k) sockets) f) =
        (\<lambda>f. m_socket_by_fsocket b f @ paired_sockets (data_sockets b (fsocket # rest)) (drop k sockets) f)"
      using True by (auto simp: fun_eq_iff drop data_sockets_def paired_sockets_Cons map_sockets_def)
    have "map_data_sockets_loop b (fsocket # rest) sockets k = map_data_sockets_loop ?b1 rest sockets (Suc k)"
      using True k by simp
    also have "\<dots> = Inr (?b1\<lparr>m_socket_by_fsocket :=
             (\<lambda>f. m_socket_by_fsocket ?b1 f @ paired_sockets (data_sockets b rest) (drop (Suc k) sockets) f)\<rparr>)"
      using Cons.IH [OF rest] by simp
    also have "\<dots> = Inr (b\<lparr>m_socket_by_fsocket :=
             (\<lambda>f. m_socket_by_fsocket b f @ paired_sockets (data_sockets b (fsocket # rest)) (drop k sockets) f)\<rparr>)"
      unfolding maps by (simp add: map_sockets_def)
    finally show ?thesis .
  qed
qed


lemma map_data_sockets_result:
  assumes "length (data_sockets b (fnode_inputs fnode)) \<le> length (node_inputs node)"
      and "length (data_sockets b (fnode_outputs fnode)) \<le> length (node_outputs node)"
  shows "map_data_sockets b fnode node =
     Inr (b\<lparr>m_socket_by_fsocket :=
             (\<lambda>f. m_socket_by_fsocket b f @
                  paired_sockets (data_sockets b (fnode_inputs fnode)) (node_inputs node) f @
                  paired_sockets (data_sockets b (fnode_outputs fnode)) (node_outputs node) f)\<rparr>)"
proof -
  let ?b1 = "b\<lparr>m_socket_by_fsocket :=
             (\<lambda>f. m_socket_by_fsocket b f @ paired_sockets (data_sockets b (fnode_inputs fnode)) (node_inputs node) f)\<rparr>"
  have same: "data_sockets ?b1 = data_sockets b"
    by simp
  have first: "map_data_sockets_loop b (fnode_inputs fnode) (node_inputs node) 0 = Inr ?b1"
    using map_data_sockets_loop_result [of b "fnode_inputs fnode" 0 "node_inputs node"] assms(1) by simp
  have second: "map_data_sockets_loop ?b1 (fnode_outputs fnode) (node_outputs node) 0 =
      Inr (?b1\<lparr>m_socket_by_fsocket :=
             (\<lambda>f. m_socket_by_fsocket ?b1 f @ paired_sockets (data_sockets b (fnode_outputs fnode)) (node_outputs node) f)\<rparr>)"
    using map_data_sockets_loop_result [of ?b1 "fnode_outputs fnode" 0 "node_outputs node"] assms(2)
    by (simp only: same add_0_right drop_0)
  show ?thesis
    unfolding map_data_sockets_def first sum.case second by simp
qed

lemma paired_sockets_nth:
  "k < length ds \<Longrightarrow> k < length ss \<Longrightarrow> ss ! k \<in> set (paired_sockets ds ss (fsocket_id (ds ! k)))"
proof -
  assume k: "k < length ds" "k < length ss"
  then have "(ds ! k, ss ! k) \<in> set (zip ds ss)"
    by (auto simp: set_zip)
  then show ?thesis
    by (force simp: paired_sockets_def)
qed

lemma paired_sockets_other:
  "f \<notin> fsocket_id ` set ds \<Longrightarrow> paired_sockets ds ss f = []"
  by (auto simp: paired_sockets_def filter_empty_conv dest: set_zip_leftD)

lemma paired_sockets_distinct:
  "distinct (map fsocket_id ds) \<Longrightarrow> k < length ds \<Longrightarrow> length ds \<le> length ss \<Longrightarrow>
   paired_sockets ds ss (fsocket_id (ds ! k)) = [ss ! k]"
proof (induction ds arbitrary: ss k)
  case Nil
  then show ?case by simp
next
  case (Cons d ds)
  then obtain s ss' where ss: "ss = s # ss'" by (cases ss) auto
  show ?case
  proof (cases k)
    case 0
    with Cons.prems show ?thesis
      by (simp add: ss paired_sockets_Cons paired_sockets_other)
  next
    case (Suc j)
    from Suc Cons.prems have j: "j < length ds" by simp
    then have "fsocket_id (ds ! j) \<in> fsocket_id ` set ds" by simp
    moreover from Cons.prems have "fsocket_id d \<notin> fsocket_id ` set ds" by simp
    ultimately have "fsocket_id (ds ! j) \<noteq> fsocket_id d" by metis
    with Suc j Cons.prems Cons.IH [of j ss'] show ?thesis
      by (auto simp: ss paired_sockets_Cons)
  qed
qed


lemmas example_defs =
  example_types_def example_builder_def example_fnode_def example_fn_def new_builder_def
  add_function_def MFNetworkBuilder_add_function_def insert_node_def new_socket_def
  data_sockets_def is_data_socket_def try_get_data_type_def paired_sockets_def Let_def

text \<open>
  C1: for a graph node and a network node that has a socket for each of its data
  sockets, \<open>map_data_sockets\<close> pairs the k-th data input socket (walking the inputs in
  order and skipping the non-data sockets) with the k-th input socket of the network
  node, and the k-th data output socket with the k-th output socket. The Socket Map
  gains exactly these pairs: every socket id keeps its earlier entries and gets the
  network sockets at its own positions appended, so with distinct socket ids the k-th
  data socket gets the k-th network socket and no other; a non-data socket in between
  shifts nothing.
\<close>

theorem map_data_sockets_positional:
  assumes "length (data_sockets b (fnode_inputs fnode)) \<le> length (node_inputs node)"
      and "length (data_sockets b (fnode_outputs fnode)) \<le> length (node_outputs node)"
  shows "\<exists>b'. map_data_sockets b fnode node = Inr b' \<and>
     (\<forall>k < length (data_sockets b (fnode_inputs fnode)).
         node_inputs node ! k \<in> set (m_socket_by_fsocket b' (fsocket_id (data_sockets b (fnode_inputs fnode) ! k)))) \<and>
     (\<forall>k < length (data_sockets b (fnode_outputs fnode)).
         node_outputs node ! k \<in> set (m_socket_by_fsocket b' (fsocket_id (data_sockets b (fnode_outputs fnode) ! k)))) \<and>
     (\<forall>f. m_socket_by_fsocket b' f =
            m_socket_by_fsocket b f @
            paired_sockets (data_sockets b (fnode_inputs fnode)) (node_inputs node) f @
            paired_sockets (data_sockets b (fnode_outputs fnode)) (node_outputs node) f) \<and>
     (distinct (map fsocket_id (data_sockets b (fnode_inputs fnode) @ data_sockets b (fnode_outputs fnode))) \<longrightarrow>
        (\<forall>k < length (data_sockets b (fnode_inputs fnode)).
            m_socket_by_fsocket b' (fsocket_id (data_sockets b (fnode_inputs fnode) ! k)) =
              m_socket_by_fsocket b (fsocket_id (data_sockets b (fnode_inputs fnode) ! k)) @ [node_inputs node ! k]) \<and>
        (\<forall>k < length (data_sockets b (fnode_outputs fnode)).
            m_socket_by_fsocket b' (fsocket_id (data_sockets b (fnode_outputs fnode) ! k)) =
              m_socket_by_fsocket b (fsocket_id (data_sockets b (fnode_outputs fnode) ! k)) @ [node_outputs node ! k]))"
proof -
  let ?din = "data_sockets b (fnode_inputs fnode)" and ?dout = "data_sockets b (fnode_outputs fnode)"
  let ?ins = "node_inputs node" and ?outs = "node_outputs node"
  let ?m = "\<lambda>f. m_socket_by_fsocket b f @ paired_sockets ?din ?ins f @ paired_sockets ?dout ?outs f"
  have res: "map_data_sockets b fnode node = Inr (b\<lparr>m_socket_by_fsocket := ?m\<rparr>)"
    using assms by (rule map_data_sockets_result)
  have ins: "\<forall>k < length ?din. ?ins ! k \<in> set (?m (fsocket_id (?din ! k)))"
    using assms(1) by (simp add: paired_sockets_nth)
  have outs: "\<forall>k < length ?dout. ?outs ! k \<in> set (?m (fsocket_id (?dout ! k)))"
    using assms(2) by (simp add: paired_sockets_nth)
  have exact: "distinct (map fsocket_id (?din @ ?dout)) \<longrightarrow>
        (\<forall>k < length ?din. ?m (fsocket_id (?din ! k)) = m_socket_by_fsocket b (fsocket_id (?din ! k)) @ [?ins ! k]) \<and>
        (\<forall>k < length ?dout. ?m (fsocket_id (?dout ! k)) = m_socket_by_fsocket b (fsocket_id (?dout ! k)) @ [?outs ! k])"
  proof (intro impI conjI allI)
    fix k
    assume d: "distinct (map fsocket_id (?din @ ?dout))" and k: "k < length ?din"
    then have "fsocket_id (?din ! k) \<in> fsocket_id ` set ?din" by simp
    with d have "fsocket_id (?din ! k) \<notin> fsocket_id ` set ?dout" by auto
    then have "paired_sockets ?dout ?outs (fsocket_id (?din ! k)) = []"
      by (rule paired_sockets_other)
    moreover have "paired_sockets ?din ?ins (fsocket_id (?din ! k)) = [?ins ! k]"
      using d k assms(1) by (simp add: paired_sockets_distinct)
    ultimately show "?m (fsocket_id (?din ! k)) = m_socket_by_fsocket b (fsocket_id (?din ! k)) @ [?ins ! k]"
      by simp
  next
    fix k
    assume d: "distinct (map fsocket_id (?din @ ?dout))" and k: "k < length ?dout"
    then have "fsocket_id (?dout ! k) \<in> fsocket_id ` set ?dout" by simp
    with d have "fsocket_id (?dout ! k) \<notin> fsocket_id ` set ?din" by auto
    then have "paired_sockets ?din ?ins (fsocket_id (?dout ! k)) = []"
      by (rule paired_sockets_other)
    moreover have "paired_sockets ?dout ?outs (fsocket_id (?dout ! k)) = [?outs ! k]"
      using d k assms(2) by (simp add: paired_sockets_distinct)
    ultimately show "?m (fsocket_id (?dout ! k)) = m_socket_by_fsocket b (fsocket_id (?dout ! k)) @ [?outs ! k]"
      by simp
  qed
  show ?thesis
    unfolding res using ins outs exact by simp
qed

theorem map_data_sockets_positional_witness:
  "length (data_sockets (fst (add_function example_builder example_fn)) (fnode_inputs example_fnode))
     \<le> length (node_inputs (snd (add_function example_builder example_fn))) \<and>
   length (data_sockets (fst (add_function example_builder example_fn)) (fnode_outputs example_fnode))
     \<le> length (node_outputs (snd (add_function example_builder example_fn))) \<and>
   node_inputs (snd (add_function example_builder example_fn)) = [0, 1] \<and>
   (\<exists>b'. map_data_sockets (fst (add_function example_builder example_fn)) example_fnode
            (snd (add_function example_builder example_fn)) = Inr b' \<and>
         m_socket_by_fsocket b' 0 = [0] \<and> m_socket_by_fsocket b' 1 = [] \<and>
         m_socket_by_fsocket b' 2 = [1] \<and> m_socket_by_fsocket b' 3 = [2])"
proof -
  let ?b = "fst (add_function example_builder example_fn)"
  let ?node = "snd (add_function example_builder example_fn)"
  have ins: "length (data_sockets ?b (fnode_inputs example_fnode)) \<le> length (node_inputs ?node)"
    by (simp add: example_defs)
  have outs: "length (data_sockets ?b (fnode_outputs example_fnode)) \<le> length (node_outputs ?node)"
    by (simp add: example_defs)
  have node: "node_inputs ?node = [0, 1]"
    by (simp add: example_defs upt_rec)
  from map_data_sockets_positional [OF ins outs] obtain b' where
    b': "map_data_sockets ?b example_fnode ?node = Inr b'"
    and m: "\<forall>f. m_socket_by_fsocket b' f =
            m_socket_by_fsocket ?b f @
            paired_sockets (data_sockets ?b (fnode_inputs example_fnode)) (node_inputs ?node) f @
            paired_sockets (data_sockets ?b (fnode_outputs example_fnode)) (node_outputs ?node) f"
    by blast
  have "m_socket_by_fsocket b' 0 = [0]" "m_socket_by_fsocket b' 1 = []"
    "m_socket_by_fsocket b' 2 = [1]" "m_socket_by_fsocket b' 3 = [2]"
    unfolding m [rule_format] by (simp_all add: example_defs upt_rec)
  with ins outs node b' show ?thesis by blast
qed

subsection \<open>add\_function without a graph node\<close>

text \<open>
  C7: \<open>add_function(fn)\<close> inserts one new function node for the callable and does no
  socket mapping: the Socket Map and the other members are unchanged, the nodes and
  sockets already in the network stay as they are (the new node and its sockets are
  appended after them). The overload with a graph node does the same and then runs
  \<open>map_data_sockets\<close> for the graph node on the new node.
\<close>

theorem add_function_frame:
  "m_socket_by_fsocket (fst (add_function b fn)) = m_socket_by_fsocket b \<and>
   tree_socket_count (fst (add_function b fn)) = tree_socket_count b \<and>
   fsocket_data_types (fst (add_function b fn)) = fsocket_data_types b \<and>
   data_type_by_type_name (fst (add_function b fn)) = data_type_by_type_name b \<and>
   cpp_type_by_type_name (fst (add_function b fn)) = cpp_type_by_type_name b \<and>
   nb_nodes (m_builder (fst (add_function b fn))) = nb_nodes (m_builder b) @ [snd (add_function b fn)] \<and>
   node_is_dummy (snd (add_function b fn)) = False \<and>
   node_name (snd (add_function b fn)) = fn_name fn \<and>
   sockets_by_id (m_builder (fst (add_function b fn))) =
     sockets_by_id (m_builder b) @
     map (new_socket (length (nb_nodes (m_builder b))) False) (fn_inputs fn) @
     map (new_socket (length (nb_nodes (m_builder b))) True) (fn_outputs fn) \<and>
   add_function_fnode b fn fnode =
     (case map_data_sockets (fst (add_function b fn)) fnode (snd (add_function b fn)) of
        Inl e \<Rightarrow> Inl e
      | Inr b2 \<Rightarrow> Inr (b2, snd (add_function b fn)))"
proof -
  have two: "add_function_fnode b fn fnode =
     (case map_data_sockets (fst (add_function b fn)) fnode (snd (add_function b fn)) of
        Inl e \<Rightarrow> Inl e
      | Inr b2 \<Rightarrow> Inr (b2, snd (add_function b fn)))"
    by (simp add: add_function_fnode_def case_prod_beta)
  show ?thesis
    unfolding two
    by (simp add: add_function_def MFNetworkBuilder_add_function_def insert_node_def Let_def)
qed

theorem add_function_frame_witness:
  "m_socket_by_fsocket (fst (add_function example_builder example_fn)) 0 = [] \<and>
   length (nb_nodes (m_builder (fst (add_function example_builder example_fn)))) = 1 \<and>
   length (sockets_by_id (m_builder (fst (add_function example_builder example_fn)))) = 3 \<and>
   (\<exists>b2 node. add_function_fnode example_builder example_fn example_fnode = Inr (b2, node) \<and>
       m_socket_by_fsocket b2 0 = [0])"
proof -
  note frame = add_function_frame [of example_builder example_fn example_fnode]
  have empty: "m_socket_by_fsocket example_builder 0 = []"
    by (simp add: example_builder_def new_builder_def)
  have nodes: "nb_nodes (m_builder example_builder) = []" "sockets_by_id (m_builder example_builder) = []"
    by (simp_all add: example_builder_def new_builder_def)
  have len: "length (fn_inputs example_fn) = 2" "length (fn_outputs example_fn) = 1"
    by (simp_all add: example_fn_def)
  have mapped: "\<exists>b'. map_data_sockets (fst (add_function example_builder example_fn)) example_fnode
            (snd (add_function example_builder example_fn)) = Inr b' \<and> m_socket_by_fsocket b' 0 = [0]"
    by (simp add: map_data_sockets_def example_defs map_sockets_def upt_rec)
  from frame empty nodes len mapped show ?thesis
    by auto
qed

subsection \<open>Type resolution\<close>

text \<open>
  C5: \<open>data_type_from_property\<close> and \<open>cpp_type_from_property\<close> read the type name
  from the node property and look it up in the fixed table: the result is the table's
  entry for that name, or a lookup failure when the table has no such name; no default
  type is put in its place.
\<close>

theorem type_from_property_lookup:
  "data_type_from_property b fnode prop_name =
     (case data_type_by_type_name b (RNA_string_get (fnode_rna fnode) prop_name) of
        Some data_type \<Rightarrow> Inr data_type
      | None \<Rightarrow> Inl LookupFailed) \<and>
   cpp_type_from_property b fnode prop_name =
     (case cpp_type_by_type_name b (RNA_string_get (fnode_rna fnode) prop_name) of
        Some cpp_type \<Rightarrow> Inr cpp_type
      | None \<Rightarrow> Inl LookupFailed)"
  by (simp add: data_type_from_property_def cpp_type_from_property_def cpp_type_by_name_def
      table_lookup_def split: option.splits)

theorem type_from_property_lookup_witness:
  "data_type_from_property example_builder example_fnode ''data_type'' = Inr (DataType ''Float'') \<and>
   cpp_type_from_property example_builder example_fnode ''data_type'' = Inr ''float'' \<and>
   data_type_from_property example_builder example_fnode ''no_such_property'' = Inl LookupFailed \<and>
   cpp_type_from_property example_builder example_fnode ''no_such_property'' = Inl LookupFailed"
proof -
  have name: "RNA_string_get (fnode_rna example_fnode) ''data_type'' = ''Float''"
    "RNA_string_get (fnode_rna example_fnode) ''no_such_property'' = []"
    by (simp_all add: example_fnode_def example_rna_def RNA_string_get_def)
  from type_from_property_lookup [of example_builder example_fnode "''data_type''"]
    type_from_property_lookup [of example_builder example_fnode "''no_such_property''"]
  show ?thesis
    unfolding name by (simp add: example_builder_def new_builder_def)
qed

subsection \<open>Vectorization\<close>

lemma input_is_vectorized_loop_result:
  "flags_readable debug rna prop_names \<Longrightarrow>
   input_is_vectorized_loop debug rna prop_names acc =
     Inr (acc @ map (\<lambda>p. RNA_string_get rna p = ''LIST'') prop_names)"
  by (induction prop_names arbitrary: acc) (auto simp: flags_readable_def Let_def)

text \<open>
  C4: when every flag can be read (at most four characters, and \<open>BASE\<close> or
  \<open>LIST\<close> in a debug build), \<open>get_vectorized_function\<close> returns the very reference
  of the base callable and constructs nothing if no input is flagged \<open>LIST\<close>; if at
  least one input is flagged \<open>LIST\<close> it constructs one \<open>MF_SimpleVectorize\<close> of the
  base function and the flags and returns the reference of that new object, which
  differs from every reference that existed before.
\<close>

theorem get_vectorized_function_spec:
  assumes "flags_readable debug rna prop_names"
  shows "(\<not> (\<exists>p \<in> set prop_names. RNA_string_get rna p = ''LIST'') \<longrightarrow>
            get_vectorized_function debug rna resources base_function prop_names =
              Inr (resources, base_function)) \<and>
         ((\<exists>p \<in> set prop_names. RNA_string_get rna p = ''LIST'') \<longrightarrow>
            get_vectorized_function debug rna resources base_function prop_names =
              Inr (resources @ [MF_SimpleVectorize base_function
                                  (map (\<lambda>p. RNA_string_get rna p = ''LIST'') prop_names)],
                   Owned (length resources)) \<and>
            (valid_ref resources base_function \<longrightarrow> Owned (length resources) \<noteq> base_function))"
  using input_is_vectorized_loop_result [OF assms, of "[]"]
  by (auto simp: get_vectorized_function_def construct_fn_MF_SimpleVectorize_def valid_ref_def)

theorem get_vectorized_function_spec_witness:
  "flags_readable True example_rna [''use_list__a''] \<and>
   get_vectorized_function True example_rna [] (Given 0) [''use_list__a''] = Inr ([], Given 0) \<and>
   flags_readable True example_rna [''use_list__a'', ''use_list__b''] \<and>
   get_vectorized_function True example_rna [] (Given 0) [''use_list__a'', ''use_list__b''] =
     Inr ([MF_SimpleVectorize (Given 0) [False, True]], Owned 0)"
proof -
  have vals: "RNA_string_get example_rna ''use_list__a'' = ''BASE''"
    "RNA_string_get example_rna ''use_list__b'' = ''LIST''"
    by (simp_all add: example_rna_def RNA_string_get_def)
  have r1: "flags_readable True example_rna [''use_list__a'']"
    by (simp add: flags_readable_def vals)
  have r2: "flags_readable True example_rna [''use_list__a'', ''use_list__b'']"
    by (simp add: flags_readable_def vals)
  from get_vectorized_function_spec [OF r1, of "[]" "Given 0"]
    get_vectorized_function_spec [OF r2, of "[]" "Given 0"] r1 r2
  show ?thesis
    by (simp add: vals)
qed

subsection \<open>The reverse table of build\<close>

lemma build_mapped_ids_loop_result:
  "\<forall>s \<in> set ids. s < length table \<Longrightarrow>
   \<exists>table'. build_mapped_ids_loop fid ids table = Inr table' \<and> length table' = length table \<and>
      (\<forall>s < length table. table' ! s = (if s \<in> set ids then Some fid else table ! s))"
proof (induction ids arbitrary: table)
  case Nil
  then show ?case by simp
next
  case (Cons mapped_id rest)
  then have "\<forall>s \<in> set rest. s < length (table[mapped_id := Some fid])" by simp
  from Cons.IH [OF this] obtain table' where
    t: "build_mapped_ids_loop fid rest (table[mapped_id := Some fid]) = Inr table'"
      "length table' = length table"
      "\<forall>s < length table. table' ! s = (if s \<in> set rest then Some fid else table[mapped_id := Some fid] ! s)"
    by auto
  have "\<forall>s < length table. table' ! s = (if s \<in> set (mapped_id # rest) then Some fid else table ! s)"
    using t(3) by (auto simp: nth_list_update)
  with t Cons.prems show ?case by simp
qed

lemma build_fsocket_ids_loop_result:
  "\<forall>f \<in> set fids. \<forall>s \<in> set (m f). s < length table \<Longrightarrow>
   \<exists>table'. build_fsocket_ids_loop m fids table = Inr table' \<and> length table' = length table \<and>
      (\<forall>s < length table. table' ! s =
          (case filter (\<lambda>f. s \<in> set (m f)) fids of [] \<Rightarrow> table ! s | f # fs \<Rightarrow> Some (last (f # fs))))"
proof (induction fids arbitrary: table)
  case Nil
  then show ?case by simp
next
  case (Cons fid rest)
  then have "\<forall>s \<in> set (m fid). s < length table" by simp
  from build_mapped_ids_loop_result [OF this, of fid] obtain table1 where
    t1: "build_mapped_ids_loop fid (m fid) table = Inr table1" "length table1 = length table"
      "\<forall>s < length table. table1 ! s = (if s \<in> set (m fid) then Some fid else table ! s)"
    by blast
  from Cons.prems t1(2) have "\<forall>f \<in> set rest. \<forall>s \<in> set (m f). s < length table1" by simp
  from Cons.IH [OF this] obtain table' where
    t': "build_fsocket_ids_loop m rest table1 = Inr table'" "length table' = length table1"
      "\<forall>s < length table1. table' ! s =
          (case filter (\<lambda>f. s \<in> set (m f)) rest of [] \<Rightarrow> table1 ! s | f # fs \<Rightarrow> Some (last (f # fs)))"
    by blast
  have "\<forall>s < length table. table' ! s =
          (case filter (\<lambda>f. s \<in> set (m f)) (fid # rest) of [] \<Rightarrow> table ! s | f # fs \<Rightarrow> Some (last (f # fs)))"
    using t1(2,3) t'(3) by (auto split: list.splits)
  with t1 t' show ?case by simp
qed

lemma build_result:
  assumes "mapped_ids_in_range b"
  shows "\<exists>r. build b = Inr r \<and> network r = m_builder b \<and>
            socket_by_fsocket r = m_socket_by_fsocket b \<and>
            length (fsocket_by_socket r) = length (sockets_by_id (m_builder b)) \<and>
            (\<forall>socket < length (sockets_by_id (m_builder b)).
                fsocket_by_socket r ! socket =
                  (if reverse_candidates b socket = [] then None
                   else Some (last (reverse_candidates b socket))))"
proof -
  let ?n = "length (sockets_by_id (m_builder b))"
  from assms have "\<forall>f \<in> set [0 ..< tree_socket_count b].
      \<forall>s \<in> set (m_socket_by_fsocket b f). s < length (replicate ?n (None :: nat option))"
    by (simp add: mapped_ids_in_range_def)
  from build_fsocket_ids_loop_result [OF this] obtain table where
    t: "build_fsocket_ids_loop (m_socket_by_fsocket b) [0 ..< tree_socket_count b] (replicate ?n None) = Inr table"
      "length table = ?n"
      "\<forall>s < ?n. table ! s =
          (case filter (\<lambda>f. s \<in> set (m_socket_by_fsocket b f)) [0 ..< tree_socket_count b] of
             [] \<Rightarrow> replicate ?n None ! s | f # fs \<Rightarrow> Some (last (f # fs)))"
    by auto
  have "\<forall>s < ?n. table ! s =
      (if reverse_candidates b s = [] then None else Some (last (reverse_candidates b s)))"
    using t(3) by (auto simp: reverse_candidates_def split: list.splits)
  with t(1,2) show ?thesis
    by (simp add: build_def Let_def)
qed


text \<open>
  C3 (as the code has it): when every mapped id is the id of a network socket,
  \<open>build\<close> returns the network with the forward table unchanged and a reverse table
  with one entry per network socket id. The entry is the unmapped value when no graph
  socket of the tree maps to the socket; otherwise it is the LAST graph socket id, in
  the scan order 0, 1, 2, \dots of the tree's socket ids, whose forward mapping contains
  the socket (each later match overwrites the earlier one). The entry is a function of
  the builder, so it is never ambiguous.
\<close>

theorem build_reverse_table_last_match:
  assumes "mapped_ids_in_range b"
  shows "\<exists>r. build b = Inr r \<and> network r = m_builder b \<and>
            socket_by_fsocket r = m_socket_by_fsocket b \<and>
            length (fsocket_by_socket r) = length (sockets_by_id (m_builder b)) \<and>
            (\<forall>socket < length (sockets_by_id (m_builder b)).
                fsocket_by_socket r ! socket =
                  (if reverse_candidates b socket = [] then None
                   else Some (last (reverse_candidates b socket))))"
  using assms by (rule build_result)

lemma shared_socket_builder_eval:
  "tree_socket_count shared_socket_builder = 4"
  "m_socket_by_fsocket shared_socket_builder = (\<lambda>f. if f = 0 \<or> f = 3 then [0] else [])"
  "sockets_by_id (m_builder shared_socket_builder) =
     [\<lparr>socket_name = ''v'', socket_data_type = DataType ''Float'', socket_is_output = False, socket_node = 0\<rparr>]"
  by (simp_all add: shared_socket_builder_def add_function_fnode_def map_data_sockets_def
      map_sockets_def example_unary_fn_def example_fnode_p_def example_fnode_q_def
      example_types_def example_builder_def new_builder_def add_function_def
      MFNetworkBuilder_add_function_def insert_node_def new_socket_def
      is_data_socket_def try_get_data_type_def Let_def fun_eq_iff)

theorem build_reverse_table_last_match_witness:
  "mapped_ids_in_range shared_socket_builder \<and>
   (\<exists>r. build shared_socket_builder = Inr r \<and> length (fsocket_by_socket r) = 1 \<and>
        fsocket_by_socket r ! 0 = Some 3)"
proof -
  have range: "mapped_ids_in_range shared_socket_builder"
    by (simp add: mapped_ids_in_range_def shared_socket_builder_eval)
  have cands: "reverse_candidates shared_socket_builder 0 = [0, 3]"
    by (simp add: reverse_candidates_def shared_socket_builder_eval upt_rec)
  from build_reverse_table_last_match [OF range] range show ?thesis
    by (auto simp: cands shared_socket_builder_eval)
qed

theorem build_first_match_counterexample:
  "build shared_socket_builder =
     Inr \<lparr>network = m_builder shared_socket_builder,
          socket_by_fsocket = m_socket_by_fsocket shared_socket_builder,
          fsocket_by_socket = [Some 3]\<rparr> \<and>
   reverse_candidates shared_socket_builder 0 = [0, 3] \<and>
   hd (reverse_candidates shared_socket_builder 0) = 0"
proof -
  have cands: "reverse_candidates shared_socket_builder 0 = [0, 3]"
    by (simp add: reverse_candidates_def shared_socket_builder_eval upt_rec)
  have "build shared_socket_builder =
     Inr \<lparr>network = m_builder shared_socket_builder,
          socket_by_fsocket = m_socket_by_fsocket shared_socket_builder,
          fsocket_by_socket = [Some 3]\<rparr>"
    by (simp add: build_def shared_socket_builder_eval upt_rec Let_def)
  with cands show ?thesis by simp
qed

subsection \<open>add\_dummy\<close>

lemma try_get_data_type_builder [simp]:
  "try_get_data_type (b\<lparr>m_builder := nb\<rparr>) = try_get_data_type b"
  by (simp add: fun_eq_iff try_get_data_type_def)

lemma is_data_socket_builder [simp]:
  "is_data_socket (b\<lparr>m_builder := nb\<rparr>) = is_data_socket b"
  by (simp add: fun_eq_iff is_data_socket_def)

lemma data_sockets_builder [simp]:
  "data_sockets (b\<lparr>m_builder := nb\<rparr>) = data_sockets b"
  by (simp add: fun_eq_iff data_sockets_def)

lemma collect_dummy_sockets_result:
  "collect_dummy_sockets b fsockets types names =
     (types @ map (\<lambda>fsocket. the (try_get_data_type b fsocket)) (data_sockets b fsockets),
      names @ map fsocket_name (data_sockets b fsockets))"
  by (induction fsockets arbitrary: types names)
     (auto simp: data_sockets_def is_data_socket_def split: option.splits)

lemma any_data_socket_iff:
  "any_data_socket b fsockets \<longleftrightarrow> data_sockets b fsockets \<noteq> []"
  by (induction fsockets) (auto simp: data_sockets_def)

lemma has_data_sockets_iff:
  "has_data_sockets b fnode \<longleftrightarrow>
     data_sockets b (fnode_inputs fnode) \<noteq> [] \<or> data_sockets b (fnode_outputs fnode) \<noteq> []"
  by (simp add: has_data_sockets_def any_data_socket_iff)

lemma add_dummy_result:
  "add_dummy b fnode =
     Inr (b\<lparr>m_builder :=
               fst (insert_node (m_builder b) (fnode_name fnode) True
                      (map (\<lambda>fsocket. (fsocket_name fsocket, the (try_get_data_type b fsocket)))
                           (data_sockets b (fnode_inputs fnode)))
                      (map (\<lambda>fsocket. (fsocket_name fsocket, the (try_get_data_type b fsocket)))
                           (data_sockets b (fnode_outputs fnode)))),
             m_socket_by_fsocket :=
               (\<lambda>f. m_socket_by_fsocket b f @
                    paired_sockets (data_sockets b (fnode_inputs fnode))
                      [length (sockets_by_id (m_builder b)) ..<
                       length (sockets_by_id (m_builder b)) + length (data_sockets b (fnode_inputs fnode))] f @
                    paired_sockets (data_sockets b (fnode_outputs fnode))
                      [length (sockets_by_id (m_builder b)) + length (data_sockets b (fnode_inputs fnode)) ..<
                       length (sockets_by_id (m_builder b)) + length (data_sockets b (fnode_inputs fnode)) +
                       length (data_sockets b (fnode_outputs fnode))] f)\<rparr>,
          snd (insert_node (m_builder b) (fnode_name fnode) True
                 (map (\<lambda>fsocket. (fsocket_name fsocket, the (try_get_data_type b fsocket)))
                      (data_sockets b (fnode_inputs fnode)))
                 (map (\<lambda>fsocket. (fsocket_name fsocket, the (try_get_data_type b fsocket)))
                      (data_sockets b (fnode_outputs fnode)))))"
proof -
  let ?sig = "\<lambda>fsockets. map (\<lambda>fsocket. (fsocket_name fsocket, the (try_get_data_type b fsocket)))
                           (data_sockets b fsockets)"
  let ?ins = "?sig (fnode_inputs fnode)" and ?outs = "?sig (fnode_outputs fnode)"
  let ?new = "insert_node (m_builder b) (fnode_name fnode) True ?ins ?outs"
  have zip: "\<And>fsockets. zip (map fsocket_name (data_sockets b fsockets))
        (map (\<lambda>fsocket. the (try_get_data_type b fsocket)) (data_sockets b fsockets)) = ?sig fsockets"
    by (simp add: zip_map_map zip_same_conv_map)
  have node: "node_inputs (snd ?new) =
        [length (sockets_by_id (m_builder b)) ..<
         length (sockets_by_id (m_builder b)) + length (data_sockets b (fnode_inputs fnode))]"
      "node_outputs (snd ?new) =
        [length (sockets_by_id (m_builder b)) + length (data_sockets b (fnode_inputs fnode)) ..<
         length (sockets_by_id (m_builder b)) + length (data_sockets b (fnode_inputs fnode)) +
         length (data_sockets b (fnode_outputs fnode))]"
    by (simp_all add: insert_node_def Let_def)
  have mapped: "map_data_sockets (b\<lparr>m_builder := fst ?new\<rparr>) fnode (snd ?new) =
      Inr (b\<lparr>m_builder := fst ?new,
             m_socket_by_fsocket :=
               (\<lambda>f. m_socket_by_fsocket b f @
                    paired_sockets (data_sockets b (fnode_inputs fnode)) (node_inputs (snd ?new)) f @
                    paired_sockets (data_sockets b (fnode_outputs fnode)) (node_outputs (snd ?new)) f)\<rparr>)"
    using map_data_sockets_result [of "b\<lparr>m_builder := fst ?new\<rparr>" fnode "snd ?new"]
    by (simp add: node)
  have "add_dummy b fnode =
      (case map_data_sockets (b\<lparr>m_builder := fst ?new\<rparr>) fnode (snd ?new) of
         Inl e \<Rightarrow> Inl e | Inr b2 \<Rightarrow> Inr (b2, snd ?new))"
    unfolding add_dummy_def collect_dummy_sockets_result Let_def case_prod_beta fst_conv snd_conv
      append_Nil MFNetworkBuilder_add_dummy_def zip ..
  then show ?thesis
    unfolding mapped node by simp
qed


lemma new_sockets_view:
  assumes "sockets_by_id (m_builder b') = old @ map (new_socket nid is_out) sig @ rest"
  shows "map (name_of_socket b') [length old ..< length old + length sig] = map (\<lambda>p. Some (fst p)) sig"
    and "map (data_type_of_socket b') [length old ..< length old + length sig] = map (\<lambda>p. Some (snd p)) sig"
  by (rule nth_equalityI; simp add: name_of_socket_def data_type_of_socket_def assms nth_append new_socket_def)+

lemma data_sockets_types:
  "map (\<lambda>fsocket. Some (the (try_get_data_type b fsocket))) (data_sockets b fsockets) =
   map (try_get_data_type b) (data_sockets b fsockets)"
  by (rule map_cong) (auto simp: data_sockets_def is_data_socket_def)

lemma paired_sockets_subset:
  "set (paired_sockets ds ss f) \<subseteq> set ss"
  by (auto simp: paired_sockets_def dest: set_zip_rightD)

lemma add_dummy_in_range:
  assumes "mapped_ids_in_range b" and "add_dummy b fnode = Inr (b', node)"
  shows "mapped_ids_in_range b'"
proof -
  let ?base = "length (sockets_by_id (m_builder b))"
  let ?din = "data_sockets b (fnode_inputs fnode)" and ?dout = "data_sockets b (fnode_outputs fnode)"
  from assms(2) have count: "tree_socket_count b' = tree_socket_count b"
    and len: "length (sockets_by_id (m_builder b')) = ?base + length ?din + length ?dout"
    and m: "m_socket_by_fsocket b' = (\<lambda>f. m_socket_by_fsocket b f @
                    paired_sockets ?din [?base ..< ?base + length ?din] f @
                    paired_sockets ?dout [?base + length ?din ..< ?base + length ?din + length ?dout] f)"
    unfolding add_dummy_result by (auto simp: insert_node_def Let_def)
  show ?thesis
    unfolding mapped_ids_in_range_def count len m
  proof (intro allI impI ballI)
    fix f s
    assume f: "f < tree_socket_count b"
      and "s \<in> set (m_socket_by_fsocket b f @
                    paired_sockets ?din [?base ..< ?base + length ?din] f @
                    paired_sockets ?dout [?base + length ?din ..< ?base + length ?din + length ?dout] f)"
    then consider "s \<in> set (m_socket_by_fsocket b f)"
      | "s \<in> set (paired_sockets ?din [?base ..< ?base + length ?din] f)"
      | "s \<in> set (paired_sockets ?dout [?base + length ?din ..< ?base + length ?din + length ?dout] f)"
      by auto
    then show "s < ?base + length ?din + length ?dout"
    proof cases
      case 1
      with assms(1) f have "s < ?base" by (simp add: mapped_ids_in_range_def)
      then show ?thesis by simp
    next
      case 2
      with paired_sockets_subset have "s \<in> set [?base ..< ?base + length ?din]" by blast
      then show ?thesis by simp
    next
      case 3
      with paired_sockets_subset
      have "s \<in> set [?base + length ?din ..< ?base + length ?din + length ?dout]" by blast
      then show ?thesis by simp
    qed
  qed
qed

text \<open>
  C6: \<open>add_dummy\<close> always returns; it appends one dummy node, named after the graph
  node, whose input and output sockets are, in order, the data input and data output
  sockets of the graph node, each with the name of the graph socket and the data type
  \<open>try_get_data_type\<close> gives for it. When every mapped id was in range before, it is
  so afterwards and \<open>build\<close> succeeds. For a graph node without data sockets the
  node's socket lists are empty and neither the Socket Map nor the network's sockets
  change.
\<close>

theorem add_dummy_spec:
  "\<exists>b' node. add_dummy b fnode = Inr (b', node) \<and>
     node_is_dummy node \<and> node_name node = fnode_name fnode \<and>
     nb_nodes (m_builder b') = nb_nodes (m_builder b) @ [node] \<and>
     map (name_of_socket b') (node_inputs node) =
       map (\<lambda>fsocket. Some (fsocket_name fsocket)) (data_sockets b (fnode_inputs fnode)) \<and>
     map (data_type_of_socket b') (node_inputs node) =
       map (try_get_data_type b) (data_sockets b (fnode_inputs fnode)) \<and>
     map (name_of_socket b') (node_outputs node) =
       map (\<lambda>fsocket. Some (fsocket_name fsocket)) (data_sockets b (fnode_outputs fnode)) \<and>
     map (data_type_of_socket b') (node_outputs node) =
       map (try_get_data_type b) (data_sockets b (fnode_outputs fnode)) \<and>
     (mapped_ids_in_range b \<longrightarrow> mapped_ids_in_range b' \<and> (\<exists>r. build b' = Inr r)) \<and>
     (\<not> has_data_sockets b fnode \<longrightarrow>
        node_inputs node = [] \<and> node_outputs node = [] \<and>
        m_socket_by_fsocket b' = m_socket_by_fsocket b \<and>
        sockets_by_id (m_builder b') = sockets_by_id (m_builder b))"
proof -
  let ?din = "data_sockets b (fnode_inputs fnode)" and ?dout = "data_sockets b (fnode_outputs fnode)"
  let ?sig = "map (\<lambda>fsocket. (fsocket_name fsocket, the (try_get_data_type b fsocket)))"
  let ?base = "length (sockets_by_id (m_builder b))"
  let ?nid = "length (nb_nodes (m_builder b))"
  obtain b' node where res: "add_dummy b fnode = Inr (b', node)"
    unfolding add_dummy_result by blast
  from res have node: "node_is_dummy node" "node_name node = fnode_name fnode"
      "node_inputs node = [?base ..< ?base + length (?sig ?din)]"
      "node_outputs node = [length (sockets_by_id (m_builder b) @ map (new_socket ?nid False) (?sig ?din)) ..<
          length (sockets_by_id (m_builder b) @ map (new_socket ?nid False) (?sig ?din)) + length (?sig ?dout)]"
    and nodes: "nb_nodes (m_builder b') = nb_nodes (m_builder b) @ [node]"
    and socks: "sockets_by_id (m_builder b') =
        sockets_by_id (m_builder b) @ map (new_socket ?nid False) (?sig ?din) @ map (new_socket ?nid True) (?sig ?dout)"
    and m: "m_socket_by_fsocket b' = (\<lambda>f. m_socket_by_fsocket b f @
                    paired_sockets ?din [?base ..< ?base + length ?din] f @
                    paired_sockets ?dout [?base + length ?din ..< ?base + length ?din + length ?dout] f)"
    unfolding add_dummy_result by (auto simp: insert_node_def Let_def)
  have socks2: "sockets_by_id (m_builder b') =
        (sockets_by_id (m_builder b) @ map (new_socket ?nid False) (?sig ?din)) @
        map (new_socket ?nid True) (?sig ?dout) @ []"
    by (simp add: socks)
  have in_names: "map (name_of_socket b') (node_inputs node) = map (\<lambda>fsocket. Some (fsocket_name fsocket)) ?din"
    unfolding node(3) new_sockets_view(1) [OF socks] by (simp add: comp_def)
  have in_types: "map (data_type_of_socket b') (node_inputs node) = map (try_get_data_type b) ?din"
    unfolding node(3) new_sockets_view(2) [OF socks] by (simp add: comp_def data_sockets_types)
  have out_names: "map (name_of_socket b') (node_outputs node) = map (\<lambda>fsocket. Some (fsocket_name fsocket)) ?dout"
    unfolding node(4) new_sockets_view(1) [OF socks2] by (simp add: comp_def)
  have out_types: "map (data_type_of_socket b') (node_outputs node) = map (try_get_data_type b) ?dout"
    unfolding node(4) new_sockets_view(2) [OF socks2] by (simp add: comp_def data_sockets_types)
  have range: "mapped_ids_in_range b \<longrightarrow> mapped_ids_in_range b' \<and> (\<exists>r. build b' = Inr r)"
    using add_dummy_in_range [OF _ res] build_result [of b'] by blast
  have none: "\<not> has_data_sockets b fnode \<longrightarrow>
        node_inputs node = [] \<and> node_outputs node = [] \<and>
        m_socket_by_fsocket b' = m_socket_by_fsocket b \<and>
        sockets_by_id (m_builder b') = sockets_by_id (m_builder b)"
    by (simp add: has_data_sockets_iff node socks m)
  from res node(1,2) nodes in_names in_types out_names out_types range none
  show ?thesis by blast
qed


theorem add_dummy_spec_witness:
  "mapped_ids_in_range example_builder \<and>
   \<not> has_data_sockets example_builder example_fnode_control \<and>
   (\<exists>b' node. add_dummy example_builder example_fnode_control = Inr (b', node) \<and>
       node_inputs node = [] \<and> node_outputs node = [] \<and>
       m_socket_by_fsocket b' = m_socket_by_fsocket example_builder \<and>
       (\<exists>r. build b' = Inr r)) \<and>
   (\<exists>b' node. add_dummy example_builder example_fnode = Inr (b', node) \<and>
       map (name_of_socket b') (node_inputs node) = [Some ''a'', Some ''c''] \<and>
       map (data_type_of_socket b') (node_inputs node) = [Some (DataType ''Float''), Some (DataType ''Int'')] \<and>
       map (name_of_socket b') (node_outputs node) = [Some ''r''])"
proof -
  have range: "mapped_ids_in_range example_builder"
    by (simp add: mapped_ids_in_range_def example_builder_def new_builder_def)
  have none: "\<not> has_data_sockets example_builder example_fnode_control"
    by (simp add: has_data_sockets_def example_fnode_control_def example_defs)
  have ins: "data_sockets example_builder (fnode_inputs example_fnode) =
      [\<lparr>fsocket_id = 0, fsocket_name = ''a'', fsocket_is_input = True\<rparr>,
       \<lparr>fsocket_id = 2, fsocket_name = ''c'', fsocket_is_input = True\<rparr>]"
    and outs: "data_sockets example_builder (fnode_outputs example_fnode) =
      [\<lparr>fsocket_id = 3, fsocket_name = ''r'', fsocket_is_input = False\<rparr>]"
    by (simp_all add: example_defs)
  have types: "try_get_data_type example_builder \<lparr>fsocket_id = 0, fsocket_name = ''a'', fsocket_is_input = True\<rparr>
      = Some (DataType ''Float'')"
    "try_get_data_type example_builder \<lparr>fsocket_id = 2, fsocket_name = ''c'', fsocket_is_input = True\<rparr>
      = Some (DataType ''Int'')"
    by (simp_all add: example_defs)
  from add_dummy_spec [of example_builder example_fnode_control] range none
  have first: "\<exists>b' node. add_dummy example_builder example_fnode_control = Inr (b', node) \<and>
       node_inputs node = [] \<and> node_outputs node = [] \<and>
       m_socket_by_fsocket b' = m_socket_by_fsocket example_builder \<and>
       (\<exists>r. build b' = Inr r)"
    by blast
  from add_dummy_spec [of example_builder example_fnode]
  have second: "\<exists>b' node. add_dummy example_builder example_fnode = Inr (b', node) \<and>
       map (name_of_socket b') (node_inputs node) = [Some ''a'', Some ''c''] \<and>
       map (data_type_of_socket b') (node_inputs node) = [Some (DataType ''Float''), Some (DataType ''Int'')] \<and>
       map (name_of_socket b') (node_outputs node) = [Some ''r'']"
    unfolding ins outs by (auto simp: types)
  from range none first second show ?thesis by blast
qed

subsection \<open>Type equality of mapped sockets\<close>

lemma paired_sockets_elem:
  "s \<in> set (paired_sockets ds ss f) \<Longrightarrow>
   \<exists>k < length ds. k < length ss \<and> fsocket_id (ds ! k) = f \<and> s = ss ! k"
  by (auto simp: paired_sockets_def in_set_zip)

lemma data_sockets_nth_is_data:
  "k < length (data_sockets b fsockets) \<Longrightarrow> \<exists>ty. try_get_data_type b (data_sockets b fsockets ! k) = Some ty"
proof -
  assume "k < length (data_sockets b fsockets)"
  then have "data_sockets b fsockets ! k \<in> set (data_sockets b fsockets)" by simp
  then show ?thesis by (auto simp: data_sockets_def is_data_socket_def)
qed

lemma invariant_gives_correct:
  "type_equality_invariant b \<Longrightarrow> m_socket_by_fsocket b (fsocket_id fsocket) \<noteq> [] \<Longrightarrow>
   socket_mapped_correctly b fsocket"
  by (fastforce simp: type_equality_invariant_def socket_mapped_correctly_def try_get_data_type_def)

lemma type_invariant_after_mapping:
  assumes inv: "type_equality_invariant b"
    and len_in: "length (data_sockets b (fnode_inputs fnode)) \<le> length (node_inputs node)"
    and len_out: "length (data_sockets b (fnode_outputs fnode)) \<le> length (node_outputs node)"
    and ty_in: "\<forall>k < length (data_sockets b (fnode_inputs fnode)).
        data_type_of_socket b (node_inputs node ! k) = try_get_data_type b (data_sockets b (fnode_inputs fnode) ! k)"
    and ty_out: "\<forall>k < length (data_sockets b (fnode_outputs fnode)).
        data_type_of_socket b (node_outputs node ! k) = try_get_data_type b (data_sockets b (fnode_outputs fnode) ! k)"
  shows "\<exists>b'. map_data_sockets b fnode node = Inr b' \<and> type_equality_invariant b' \<and>
           m_builder b' = m_builder b \<and> fsocket_data_types b' = fsocket_data_types b \<and>
           (\<forall>fsocket \<in> set (data_sockets b (fnode_inputs fnode) @ data_sockets b (fnode_outputs fnode)).
               socket_mapped_correctly b' fsocket)"
proof -
  let ?din = "data_sockets b (fnode_inputs fnode)" and ?dout = "data_sockets b (fnode_outputs fnode)"
  let ?ins = "node_inputs node" and ?outs = "node_outputs node"
  let ?m = "\<lambda>f. m_socket_by_fsocket b f @ paired_sockets ?din ?ins f @ paired_sockets ?dout ?outs f"
  let ?b' = "b\<lparr>m_socket_by_fsocket := ?m\<rparr>"
  have res: "map_data_sockets b fnode node = Inr ?b'"
    using len_in len_out by (rule map_data_sockets_result)
  have same: "data_type_of_socket ?b' = data_type_of_socket b"
    by (simp add: fun_eq_iff data_type_of_socket_def)
  have inv': "type_equality_invariant ?b'"
    unfolding type_equality_invariant_def same
  proof (intro allI ballI)
    fix f s
    assume "s \<in> set (m_socket_by_fsocket ?b' f)"
    then consider "s \<in> set (m_socket_by_fsocket b f)"
      | "s \<in> set (paired_sockets ?din ?ins f)" | "s \<in> set (paired_sockets ?dout ?outs f)"
      by auto
    then show "\<exists>ty. data_type_of_socket b s = Some ty \<and> fsocket_data_types ?b' f = Some ty"
    proof cases
      case 1
      with inv show ?thesis by (simp add: type_equality_invariant_def)
    next
      case 2
      from paired_sockets_elem [OF this] obtain k where
        k: "k < length ?din" "fsocket_id (?din ! k) = f" "s = ?ins ! k" by blast
      from data_sockets_nth_is_data [OF k(1)] obtain ty where "try_get_data_type b (?din ! k) = Some ty" ..
      with k ty_in show ?thesis by (auto simp: try_get_data_type_def)
    next
      case 3
      from paired_sockets_elem [OF this] obtain k where
        k: "k < length ?dout" "fsocket_id (?dout ! k) = f" "s = ?outs ! k" by blast
      from data_sockets_nth_is_data [OF k(1)] obtain ty where "try_get_data_type b (?dout ! k) = Some ty" ..
      with k ty_out show ?thesis by (auto simp: try_get_data_type_def)
    qed
  qed
  have mapped: "\<forall>fsocket \<in> set (?din @ ?dout). m_socket_by_fsocket ?b' (fsocket_id fsocket) \<noteq> []"
  proof
    fix fsocket
    assume "fsocket \<in> set (?din @ ?dout)"
    then consider "fsocket \<in> set ?din" | "fsocket \<in> set ?dout" by auto
    then show "m_socket_by_fsocket ?b' (fsocket_id fsocket) \<noteq> []"
    proof cases
      case 1
      then obtain k where "k < length ?din" "?din ! k = fsocket" by (auto simp: in_set_conv_nth)
      with paired_sockets_nth [of k ?din ?ins] len_in
      have "?ins ! k \<in> set (paired_sockets ?din ?ins (fsocket_id fsocket))" by auto
      then show ?thesis by auto
    next
      case 2
      then obtain k where "k < length ?dout" "?dout ! k = fsocket" by (auto simp: in_set_conv_nth)
      with paired_sockets_nth [of k ?dout ?outs] len_out
      have "?outs ! k \<in> set (paired_sockets ?dout ?outs (fsocket_id fsocket))" by auto
      then show ?thesis by auto
    qed
  qed
  have "\<forall>fsocket \<in> set (?din @ ?dout). socket_mapped_correctly ?b' fsocket"
    using invariant_gives_correct [OF inv'] mapped by blast
  with res inv' show ?thesis by simp
qed


lemma insert_then_map_types:
  assumes inv: "type_equality_invariant b"
    and len_in: "length (data_sockets b (fnode_inputs fnode)) \<le> length sig_in"
    and ty_in: "\<forall>k < length (data_sockets b (fnode_inputs fnode)).
        try_get_data_type b (data_sockets b (fnode_inputs fnode) ! k) = Some (snd (sig_in ! k))"
    and len_out: "length (data_sockets b (fnode_outputs fnode)) \<le> length sig_out"
    and ty_out: "\<forall>k < length (data_sockets b (fnode_outputs fnode)).
        try_get_data_type b (data_sockets b (fnode_outputs fnode) ! k) = Some (snd (sig_out ! k))"
  shows "\<exists>b'. map_data_sockets (b\<lparr>m_builder := fst (insert_node (m_builder b) nm dummy sig_in sig_out)\<rparr>) fnode
              (snd (insert_node (m_builder b) nm dummy sig_in sig_out)) = Inr b' \<and>
           type_equality_invariant b' \<and>
           (\<forall>fsocket \<in> set (data_sockets b (fnode_inputs fnode) @ data_sockets b (fnode_outputs fnode)).
               socket_mapped_correctly b' fsocket)"
proof -
  let ?new = "insert_node (m_builder b) nm dummy sig_in sig_out"
  let ?b1 = "b\<lparr>m_builder := fst ?new\<rparr>"
  let ?base = "length (sockets_by_id (m_builder b))"
  let ?nid = "length (nb_nodes (m_builder b))"
  have socks: "sockets_by_id (m_builder ?b1) =
      sockets_by_id (m_builder b) @ map (new_socket ?nid False) sig_in @ map (new_socket ?nid True) sig_out"
    and ins: "node_inputs (snd ?new) = [?base ..< ?base + length sig_in]"
    and outs: "node_outputs (snd ?new) = [?base + length sig_in ..< ?base + length sig_in + length sig_out]"
    by (simp_all add: insert_node_def Let_def)
  have old: "\<And>s ty. data_type_of_socket b s = Some ty \<Longrightarrow> data_type_of_socket ?b1 s = Some ty"
    unfolding data_type_of_socket_def socks by (auto simp: nth_append split: if_splits)
  have inv1: "type_equality_invariant ?b1"
    using inv old unfolding type_equality_invariant_def by fastforce
  have t_in: "\<forall>k < length sig_in. data_type_of_socket ?b1 (?base + k) = Some (snd (sig_in ! k))"
    unfolding data_type_of_socket_def socks by (simp add: nth_append new_socket_def)
  have t_out: "\<forall>k < length sig_out. data_type_of_socket ?b1 (?base + length sig_in + k) = Some (snd (sig_out ! k))"
    unfolding data_type_of_socket_def socks by (simp add: nth_append new_socket_def)
  have c1: "length (data_sockets ?b1 (fnode_inputs fnode)) \<le> length (node_inputs (snd ?new))"
    using len_in by (simp add: ins)
  have c2: "length (data_sockets ?b1 (fnode_outputs fnode)) \<le> length (node_outputs (snd ?new))"
    using len_out by (simp add: outs)
  have c3: "\<forall>k < length (data_sockets ?b1 (fnode_inputs fnode)).
        data_type_of_socket ?b1 (node_inputs (snd ?new) ! k) =
        try_get_data_type ?b1 (data_sockets ?b1 (fnode_inputs fnode) ! k)"
    using len_in ty_in t_in by (simp add: ins)
  have c4: "\<forall>k < length (data_sockets ?b1 (fnode_outputs fnode)).
        data_type_of_socket ?b1 (node_outputs (snd ?new) ! k) =
        try_get_data_type ?b1 (data_sockets ?b1 (fnode_outputs fnode) ! k)"
    using len_out ty_out t_out by (simp add: outs)
  from type_invariant_after_mapping [OF inv1 c1 c2 c3 c4] show ?thesis
    by auto
qed

lemma add_dummy_unfold:
  "add_dummy b fnode =
     (case map_data_sockets
             (b\<lparr>m_builder := fst (insert_node (m_builder b) (fnode_name fnode) True
                  (map (\<lambda>fsocket. (fsocket_name fsocket, the (try_get_data_type b fsocket)))
                       (data_sockets b (fnode_inputs fnode)))
                  (map (\<lambda>fsocket. (fsocket_name fsocket, the (try_get_data_type b fsocket)))
                       (data_sockets b (fnode_outputs fnode))))\<rparr>)
             fnode
             (snd (insert_node (m_builder b) (fnode_name fnode) True
                  (map (\<lambda>fsocket. (fsocket_name fsocket, the (try_get_data_type b fsocket)))
                       (data_sockets b (fnode_inputs fnode)))
                  (map (\<lambda>fsocket. (fsocket_name fsocket, the (try_get_data_type b fsocket)))
                       (data_sockets b (fnode_outputs fnode))))) of
        Inl e \<Rightarrow> Inl e
      | Inr b2 \<Rightarrow> Inr (b2, snd (insert_node (m_builder b) (fnode_name fnode) True
                  (map (\<lambda>fsocket. (fsocket_name fsocket, the (try_get_data_type b fsocket)))
                       (data_sockets b (fnode_inputs fnode)))
                  (map (\<lambda>fsocket. (fsocket_name fsocket, the (try_get_data_type b fsocket)))
                       (data_sockets b (fnode_outputs fnode))))))"
proof -
  have zip: "\<And>fsockets. zip (map fsocket_name (data_sockets b fsockets))
        (map (\<lambda>fsocket. the (try_get_data_type b fsocket)) (data_sockets b fsockets)) =
        map (\<lambda>fsocket. (fsocket_name fsocket, the (try_get_data_type b fsocket))) (data_sockets b fsockets)"
    by (simp add: zip_map_map zip_same_conv_map)
  show ?thesis
    unfolding add_dummy_def collect_dummy_sockets_result Let_def case_prod_beta fst_conv snd_conv
      append_Nil MFNetworkBuilder_add_dummy_def zip ..
qed

lemma add_dummy_types:
  assumes "type_equality_invariant b"
  shows "\<exists>b' node. add_dummy b fnode = Inr (b', node) \<and> type_equality_invariant b' \<and>
           (\<forall>fsocket \<in> set (data_sockets b (fnode_inputs fnode) @ data_sockets b (fnode_outputs fnode)).
               socket_mapped_correctly b' fsocket)"
proof -
  let ?sig = "\<lambda>fsockets. map (\<lambda>fsocket. (fsocket_name fsocket, the (try_get_data_type b fsocket)))
                           (data_sockets b fsockets)"
  have ty: "\<And>fsockets. \<forall>k < length (data_sockets b fsockets).
        try_get_data_type b (data_sockets b fsockets ! k) = Some (snd (?sig fsockets ! k))"
    using data_sockets_nth_is_data by fastforce
  have len: "\<And>fsockets. length (data_sockets b fsockets) \<le> length (?sig fsockets)"
    by simp
  from insert_then_map_types [where fnode = fnode and nm = "fnode_name fnode" and dummy = True,
      OF assms len ty len ty]
  show ?thesis
    unfolding add_dummy_unfold by auto
qed

lemma add_function_fnode_types:
  assumes "type_equality_invariant b" and "signature_matches b fn fnode"
  shows "\<exists>b' node. add_function_fnode b fn fnode = Inr (b', node) \<and> type_equality_invariant b' \<and>
           (\<forall>fsocket \<in> set (data_sockets b (fnode_inputs fnode) @ data_sockets b (fnode_outputs fnode)).
               socket_mapped_correctly b' fsocket)"
proof -
  from assms(2) have
    len_in: "length (data_sockets b (fnode_inputs fnode)) \<le> length (fn_inputs fn)"
    and ty_in: "\<forall>k < length (data_sockets b (fnode_inputs fnode)).
        try_get_data_type b (data_sockets b (fnode_inputs fnode) ! k) = Some (snd (fn_inputs fn ! k))"
    and len_out: "length (data_sockets b (fnode_outputs fnode)) \<le> length (fn_outputs fn)"
    and ty_out: "\<forall>k < length (data_sockets b (fnode_outputs fnode)).
        try_get_data_type b (data_sockets b (fnode_outputs fnode) ! k) = Some (snd (fn_outputs fn ! k))"
    by (simp_all add: signature_matches_def)
  have unfold: "add_function_fnode b fn fnode =
     (case map_data_sockets
             (b\<lparr>m_builder := fst (insert_node (m_builder b) (fn_name fn) False (fn_inputs fn) (fn_outputs fn))\<rparr>)
             fnode (snd (insert_node (m_builder b) (fn_name fn) False (fn_inputs fn) (fn_outputs fn))) of
        Inl e \<Rightarrow> Inl e
      | Inr b2 \<Rightarrow> Inr (b2, snd (insert_node (m_builder b) (fn_name fn) False (fn_inputs fn) (fn_outputs fn))))"
    unfolding add_function_fnode_def add_function_def MFNetworkBuilder_add_function_def Let_def
      case_prod_beta fst_conv snd_conv ..
  from insert_then_map_types [OF assms(1) len_in ty_in len_out ty_out, of "fn_name fn" False]
  show ?thesis
    unfolding unfold by auto
qed

lemma assert_fsocket_iff:
  assumes "is_data_socket b fsocket"
  shows "assert_fsocket_is_mapped_correctly b fsocket \<longleftrightarrow>
     socket_mapped_correctly b fsocket \<and>
     (\<not> fsocket_is_input fsocket \<longrightarrow> length (m_socket_by_fsocket b (fsocket_id fsocket)) = 1)"
proof -
  from assms obtain ty where ty: "try_get_data_type b fsocket = Some ty"
    by (auto simp: is_data_socket_def)
  show ?thesis
  proof (cases "fsocket_is_input fsocket")
    case True
    then show ?thesis
      by (simp add: assert_fsocket_is_mapped_correctly_def socket_mapped_correctly_def ty
          fsocket_is_mapped_def lookup_socket_input_def list_all_iff)
  next
    case False
    then show ?thesis
      by (cases "m_socket_by_fsocket b (fsocket_id fsocket)"; cases "tl (m_socket_by_fsocket b (fsocket_id fsocket))")
         (auto simp: assert_fsocket_is_mapped_correctly_def socket_mapped_correctly_def ty
          fsocket_is_mapped_def lookup_socket_output_def)
  qed
qed

lemma assert_data_sockets_iff:
  "assert_data_sockets_are_mapped_correctly b fsockets \<longleftrightarrow>
     (\<forall>fsocket \<in> set (data_sockets b fsockets). assert_fsocket_is_mapped_correctly b fsocket)"
  by (induction fsockets) (auto simp: data_sockets_def)

lemma assert_fnode_iff:
  "assert_fnode_is_mapped_correctly True b fnode \<longleftrightarrow>
     (\<forall>fsocket \<in> set (data_sockets b (fnode_inputs fnode) @ data_sockets b (fnode_outputs fnode)).
         socket_mapped_correctly b fsocket \<and>
         (\<not> fsocket_is_input fsocket \<longrightarrow> length (m_socket_by_fsocket b (fsocket_id fsocket)) = 1))"
proof -
  have data: "\<And>fsockets fsocket. fsocket \<in> set (data_sockets b fsockets) \<Longrightarrow> is_data_socket b fsocket"
    by (simp add: data_sockets_def)
  show ?thesis
    unfolding assert_fnode_is_mapped_correctly_def assert_data_sockets_iff
    using assert_fsocket_iff [OF data] by (simp add: ball_Un)
qed


text \<open>
  C2 (as the code has it): the type equality of all mapped pairs is kept by
  \<open>add_dummy\<close> for every graph node, and by \<open>add_function\<close> with a graph node when the
  callable's k-th input and output types are those of the node's k-th data input and
  output sockets; both calls then return, and every data socket of the node has at
  least one entry, each of the classifier's type. Nothing in \<open>add_function\<close> checks
  the callable against the node. In a debug build \<open>assert_fnode_is_mapped_correctly\<close>
  passes exactly when every data socket of the node is mapped correctly and every data
  socket that is not an input has exactly one entry; in a release build it checks
  nothing.
\<close>

theorem mapped_sockets_type_equality:
  "(type_equality_invariant b \<longrightarrow>
      (\<exists>b' node. add_dummy b fnode = Inr (b', node) \<and> type_equality_invariant b' \<and>
          (\<forall>fsocket \<in> set (data_sockets b (fnode_inputs fnode) @ data_sockets b (fnode_outputs fnode)).
              socket_mapped_correctly b' fsocket)) \<and>
      (signature_matches b fn fnode \<longrightarrow>
         (\<exists>b' node. add_function_fnode b fn fnode = Inr (b', node) \<and> type_equality_invariant b' \<and>
             (\<forall>fsocket \<in> set (data_sockets b (fnode_inputs fnode) @ data_sockets b (fnode_outputs fnode)).
                 socket_mapped_correctly b' fsocket)))) \<and>
   (assert_fnode_is_mapped_correctly True b fnode \<longleftrightarrow>
      (\<forall>fsocket \<in> set (data_sockets b (fnode_inputs fnode) @ data_sockets b (fnode_outputs fnode)).
          socket_mapped_correctly b fsocket \<and>
          (\<not> fsocket_is_input fsocket \<longrightarrow> length (m_socket_by_fsocket b (fsocket_id fsocket)) = 1))) \<and>
   assert_fnode_is_mapped_correctly False b fnode"
proof -
  have release: "assert_fnode_is_mapped_correctly False b fnode"
    by (simp add: assert_fnode_is_mapped_correctly_def)
  show ?thesis
    using add_dummy_types [of b fnode] add_function_fnode_types [of b fn fnode]
      assert_fnode_iff [of b fnode] release
    by blast
qed

theorem mapped_sockets_type_equality_witness:
  "type_equality_invariant example_builder \<and>
   signature_matches example_builder example_fn example_fnode \<and>
   (\<exists>b' node. add_function_fnode example_builder example_fn example_fnode = Inr (b', node) \<and>
       type_equality_invariant b' \<and>
       socket_mapped_correctly b' \<lparr>fsocket_id = 0, fsocket_name = ''a'', fsocket_is_input = True\<rparr>) \<and>
   (\<exists>b' node. add_dummy example_builder example_fnode = Inr (b', node) \<and>
       type_equality_invariant b' \<and>
       socket_mapped_correctly b' \<lparr>fsocket_id = 3, fsocket_name = ''r'', fsocket_is_input = False\<rparr>)"
proof -
  have inv: "type_equality_invariant example_builder"
    by (simp add: type_equality_invariant_def example_builder_def new_builder_def)
  have ins: "data_sockets example_builder (fnode_inputs example_fnode) =
      [\<lparr>fsocket_id = 0, fsocket_name = ''a'', fsocket_is_input = True\<rparr>,
       \<lparr>fsocket_id = 2, fsocket_name = ''c'', fsocket_is_input = True\<rparr>]"
    and outs: "data_sockets example_builder (fnode_outputs example_fnode) =
      [\<lparr>fsocket_id = 3, fsocket_name = ''r'', fsocket_is_input = False\<rparr>]"
    by (simp_all add: example_defs)
  have sig: "signature_matches example_builder example_fn example_fnode"
    unfolding signature_matches_def ins outs
    by (auto simp: less_Suc_eq example_fn_def try_get_data_type_def example_builder_def
        new_builder_def example_types_def)
  from mapped_sockets_type_equality [of example_builder example_fnode example_fn] inv sig
  show ?thesis
    unfolding ins outs by auto
qed

theorem add_function_type_mismatch_counterexample:
  "add_function_fnode example_builder example_int_fn example_fnode_p =
     Inr (mismatched_builder, snd (add_function example_builder example_int_fn)) \<and>
   is_data_socket mismatched_builder \<lparr>fsocket_id = 0, fsocket_name = ''a'', fsocket_is_input = True\<rparr> \<and>
   m_socket_by_fsocket mismatched_builder 0 = [0] \<and>
   data_type_of_socket mismatched_builder 0 = Some (DataType ''Int'') \<and>
   try_get_data_type mismatched_builder \<lparr>fsocket_id = 0, fsocket_name = ''a'', fsocket_is_input = True\<rparr> =
     Some (DataType ''Float'') \<and>
   \<not> socket_mapped_correctly mismatched_builder \<lparr>fsocket_id = 0, fsocket_name = ''a'', fsocket_is_input = True\<rparr> \<and>
   \<not> assert_fnode_is_mapped_correctly True mismatched_builder example_fnode_p"
  by (simp add: mismatched_builder_def add_function_fnode_def add_function_def
      MFNetworkBuilder_add_function_def
      insert_node_def new_socket_def Let_def map_data_sockets_def map_sockets_def
      example_int_fn_def example_fnode_p_def example_builder_def new_builder_def example_types_def
      is_data_socket_def try_get_data_type_def data_type_of_socket_def socket_mapped_correctly_def
      assert_fnode_is_mapped_correctly_def assert_fsocket_is_mapped_correctly_def
      fsocket_is_mapped_def lookup_socket_input_def)

subsection \<open>Single mapping of output sockets\<close>

lemma map_data_sockets_loop_fails:
  "k \<le> length sockets \<Longrightarrow> \<not> length (data_sockets b fsockets) + k \<le> length sockets \<Longrightarrow>
   map_data_sockets_loop b fsockets sockets k = Inl IndexOutOfRange"
  by (induction fsockets arbitrary: b k) (auto simp: data_sockets_def)

lemma map_data_sockets_returns:
  assumes "map_data_sockets b fnode node = Inr b'"
  shows "length (data_sockets b (fnode_inputs fnode)) \<le> length (node_inputs node) \<and>
         length (data_sockets b (fnode_outputs fnode)) \<le> length (node_outputs node)"
proof -
  have len_in: "length (data_sockets b (fnode_inputs fnode)) \<le> length (node_inputs node)"
  proof (rule ccontr)
    assume "\<not> ?thesis"
    then have "map_data_sockets_loop b (fnode_inputs fnode) (node_inputs node) 0 = Inl IndexOutOfRange"
      using map_data_sockets_loop_fails [where b = b and fsockets = "fnode_inputs fnode" and k = 0 and sockets = "node_inputs node"] by simp
    with assms show False by (simp add: map_data_sockets_def)
  qed
  let ?b1 = "b\<lparr>m_socket_by_fsocket :=
             (\<lambda>f. m_socket_by_fsocket b f @ paired_sockets (data_sockets b (fnode_inputs fnode)) (node_inputs node) f)\<rparr>"
  have first: "map_data_sockets_loop b (fnode_inputs fnode) (node_inputs node) 0 = Inr ?b1"
    using map_data_sockets_loop_result [of b "fnode_inputs fnode" 0 "node_inputs node"] len_in by simp
  have len_out: "length (data_sockets b (fnode_outputs fnode)) \<le> length (node_outputs node)"
  proof (rule ccontr)
    assume "\<not> ?thesis"
    then have "map_data_sockets_loop ?b1 (fnode_outputs fnode) (node_outputs node) 0 = Inl IndexOutOfRange"
      using map_data_sockets_loop_fails [where b = ?b1 and fsockets = "fnode_outputs fnode" and k = 0 and sockets = "node_outputs node"] by simp
    with assms first show False by (simp add: map_data_sockets_def)
  qed
  from len_in len_out show ?thesis ..
qed

text \<open>
  So \<open>map_data_sockets\<close> returns exactly when the network node has a socket for
  every data socket of the graph node; otherwise it reads past the node's socket array.
\<close>

lemma map_data_sockets_loop_error:
  "map_data_sockets_loop b fsockets sockets k = Inl e \<Longrightarrow> e = IndexOutOfRange"
  by (induction fsockets arbitrary: b k) (auto split: if_splits)

lemma map_data_sockets_out_of_range:
  assumes "\<not> (length (data_sockets b (fnode_inputs fnode)) \<le> length (node_inputs node) \<and>
              length (data_sockets b (fnode_outputs fnode)) \<le> length (node_outputs node))"
  shows "map_data_sockets b fnode node = Inl IndexOutOfRange"
proof (cases "map_data_sockets b fnode node")
  case (Inl e)
  then have "e = IndexOutOfRange"
    by (auto simp: map_data_sockets_def split: sum.splits dest: map_data_sockets_loop_error)
  with Inl show ?thesis by simp
next
  case (Inr b')
  from map_data_sockets_returns [OF this] assms show ?thesis by simp
qed

lemma single_mapping_after_mapping:
  assumes inv: "output_sockets_single b output_ids"
    and fresh: "fresh_for_mapping b output_ids fnode"
    and res: "map_data_sockets (b\<lparr>m_builder := nb\<rparr>) fnode node = Inr b'"
  shows "output_sockets_single b' output_ids \<and>
         (\<forall>fsocket \<in> set (data_sockets b (fnode_outputs fnode)).
             \<exists>socket. m_socket_by_fsocket b' (fsocket_id fsocket) = [socket] \<and>
                      lookup_socket_output b' fsocket = Some socket)"
proof -
  let ?din = "data_sockets b (fnode_inputs fnode)" and ?dout = "data_sockets b (fnode_outputs fnode)"
  let ?ins = "node_inputs node" and ?outs = "node_outputs node"
  from map_data_sockets_returns [OF res]
  have len_in: "length ?din \<le> length ?ins" and len_out: "length ?dout \<le> length ?outs"
    by simp_all
  from res map_data_sockets_result [of "b\<lparr>m_builder := nb\<rparr>" fnode node] len_in len_out
  have m: "m_socket_by_fsocket b' =
      (\<lambda>f. m_socket_by_fsocket b f @ paired_sockets ?din ?ins f @ paired_sockets ?dout ?outs f)"
    by auto
  from fresh have io: "fsocket_id ` set ?din \<inter> output_ids = {}"
    and oo: "fsocket_id ` set ?dout \<subseteq> output_ids"
    and unmapped: "\<forall>fsocket \<in> set ?dout. m_socket_by_fsocket b (fsocket_id fsocket) = []"
    and dist: "distinct (map fsocket_id ?dout)"
    by (simp_all add: fresh_for_mapping_def)
  have outs: "\<forall>fsocket \<in> set ?dout. \<exists>socket. paired_sockets ?dout ?outs (fsocket_id fsocket) = [socket]"
  proof
    fix fsocket
    assume "fsocket \<in> set ?dout"
    then obtain k where k: "k < length ?dout" "?dout ! k = fsocket"
      by (auto simp: in_set_conv_nth)
    from paired_sockets_distinct [OF dist k(1) len_out] k(2)
    show "\<exists>socket. paired_sockets ?dout ?outs (fsocket_id fsocket) = [socket]" by auto
  qed
  have single: "output_sockets_single b' output_ids"
    unfolding output_sockets_single_def
  proof
    fix f
    assume f: "f \<in> output_ids"
    with io have "f \<notin> fsocket_id ` set ?din" by auto
    then have no_in: "paired_sockets ?din ?ins f = []" by (rule paired_sockets_other)
    show "length (m_socket_by_fsocket b' f) \<le> 1"
    proof (cases "f \<in> fsocket_id ` set ?dout")
      case True
      then obtain fsocket where fs: "fsocket \<in> set ?dout" "f = fsocket_id fsocket" by auto
      with unmapped outs no_in show ?thesis by (auto simp: m)
    next
      case False
      then have "paired_sockets ?dout ?outs f = []" by (rule paired_sockets_other)
      with inv f no_in show ?thesis by (simp add: m output_sockets_single_def)
    qed
  qed
  have each: "\<forall>fsocket \<in> set ?dout.
      \<exists>socket. m_socket_by_fsocket b' (fsocket_id fsocket) = [socket] \<and>
               lookup_socket_output b' fsocket = Some socket"
  proof
    fix fsocket
    assume fs: "fsocket \<in> set ?dout"
    with oo io have "fsocket_id fsocket \<notin> fsocket_id ` set ?din" by auto
    then have no_in: "paired_sockets ?din ?ins (fsocket_id fsocket) = []" by (rule paired_sockets_other)
    from fs outs obtain socket where s: "paired_sockets ?dout ?outs (fsocket_id fsocket) = [socket]" by blast
    from fs unmapped no_in s have "m_socket_by_fsocket b' (fsocket_id fsocket) = [socket]"
      by (simp add: m)
    then show "\<exists>socket. m_socket_by_fsocket b' (fsocket_id fsocket) = [socket] \<and>
               lookup_socket_output b' fsocket = Some socket"
      by (simp add: lookup_socket_output_def)
  qed
  from single each show ?thesis ..
qed


text \<open>
  C8 (as the code has it): a lookup for a graph input socket returns the list of all its
  network sockets, a lookup for a graph output socket one socket, defined when the
  socket has exactly one entry. \<open>add_function(fn)\<close> keeps the single mapping of the
  output sockets. \<open>map_data_sockets\<close>, \<open>add_function\<close> with a graph node and
  \<open>add_dummy\<close> append one entry for every data output socket of the graph node, so
  they keep it when the node is fresh for mapping (its data outputs are output sockets
  with distinct ids and no entry yet, its data inputs are not output sockets); each data
  output socket of the node then has exactly one entry, which the output lookup
  returns. \<open>add_dummy\<close> always returns.
\<close>

theorem output_single_mapping_preserved:
  assumes "output_sockets_single b output_ids"
  shows "output_sockets_single (fst (add_function b fn)) output_ids \<and>
     (fresh_for_mapping b output_ids fnode \<longrightarrow>
        (\<forall>b'. map_data_sockets b fnode node = Inr b' \<longrightarrow>
            output_sockets_single b' output_ids \<and>
            (\<forall>fsocket \<in> set (data_sockets b (fnode_outputs fnode)).
                \<exists>socket. m_socket_by_fsocket b' (fsocket_id fsocket) = [socket] \<and>
                         lookup_socket_output b' fsocket = Some socket)) \<and>
        (\<forall>b' node'. add_function_fnode b fn fnode = Inr (b', node') \<longrightarrow>
            output_sockets_single b' output_ids \<and>
            (\<forall>fsocket \<in> set (data_sockets b (fnode_outputs fnode)).
                \<exists>socket. m_socket_by_fsocket b' (fsocket_id fsocket) = [socket] \<and>
                         lookup_socket_output b' fsocket = Some socket)) \<and>
        (\<exists>b' node'. add_dummy b fnode = Inr (b', node') \<and>
            output_sockets_single b' output_ids \<and>
            (\<forall>fsocket \<in> set (data_sockets b (fnode_outputs fnode)).
                \<exists>socket. m_socket_by_fsocket b' (fsocket_id fsocket) = [socket] \<and>
                         lookup_socket_output b' fsocket = Some socket)))"
proof (intro conjI impI allI)
  show "output_sockets_single (fst (add_function b fn)) output_ids"
    using assms
    by (simp add: output_sockets_single_def add_function_def MFNetworkBuilder_add_function_def
        insert_node_def Let_def)
next
  fix b'
  assume fresh: "fresh_for_mapping b output_ids fnode"
    and res: "map_data_sockets b fnode node = Inr b'"
  from res have "map_data_sockets (b\<lparr>m_builder := m_builder b\<rparr>) fnode node = Inr b'" by simp
  from single_mapping_after_mapping [OF assms fresh this]
  show "output_sockets_single b' output_ids"
    and "\<forall>fsocket \<in> set (data_sockets b (fnode_outputs fnode)).
                \<exists>socket. m_socket_by_fsocket b' (fsocket_id fsocket) = [socket] \<and>
                         lookup_socket_output b' fsocket = Some socket"
    by simp_all
next
  fix b' node'
  assume fresh: "fresh_for_mapping b output_ids fnode"
    and res: "add_function_fnode b fn fnode = Inr (b', node')"
  have unfold: "add_function_fnode b fn fnode =
     (case map_data_sockets
             (b\<lparr>m_builder := fst (insert_node (m_builder b) (fn_name fn) False (fn_inputs fn) (fn_outputs fn))\<rparr>)
             fnode (snd (insert_node (m_builder b) (fn_name fn) False (fn_inputs fn) (fn_outputs fn))) of
        Inl e \<Rightarrow> Inl e
      | Inr b2 \<Rightarrow> Inr (b2, snd (insert_node (m_builder b) (fn_name fn) False (fn_inputs fn) (fn_outputs fn))))"
    unfolding add_function_fnode_def add_function_def MFNetworkBuilder_add_function_def Let_def
      case_prod_beta fst_conv snd_conv ..
  from res have "map_data_sockets
      (b\<lparr>m_builder := fst (insert_node (m_builder b) (fn_name fn) False (fn_inputs fn) (fn_outputs fn))\<rparr>)
      fnode (snd (insert_node (m_builder b) (fn_name fn) False (fn_inputs fn) (fn_outputs fn))) = Inr b'"
    unfolding unfold by (auto split: sum.splits)
  from single_mapping_after_mapping [OF assms fresh this]
  show "output_sockets_single b' output_ids"
    and "\<forall>fsocket \<in> set (data_sockets b (fnode_outputs fnode)).
                \<exists>socket. m_socket_by_fsocket b' (fsocket_id fsocket) = [socket] \<and>
                         lookup_socket_output b' fsocket = Some socket"
    by simp_all
next
  assume fresh: "fresh_for_mapping b output_ids fnode"
  obtain b' node' where res: "add_dummy b fnode = Inr (b', node')"
    unfolding add_dummy_result by blast
  then obtain nb node where "map_data_sockets (b\<lparr>m_builder := nb\<rparr>) fnode node = Inr b'"
    unfolding add_dummy_unfold by (auto split: sum.splits)
  from single_mapping_after_mapping [OF assms fresh this] res
  show "\<exists>b' node'. add_dummy b fnode = Inr (b', node') \<and>
            output_sockets_single b' output_ids \<and>
            (\<forall>fsocket \<in> set (data_sockets b (fnode_outputs fnode)).
                \<exists>socket. m_socket_by_fsocket b' (fsocket_id fsocket) = [socket] \<and>
                         lookup_socket_output b' fsocket = Some socket)"
    by blast
qed

theorem output_single_mapping_preserved_witness:
  "output_sockets_single example_builder {3} \<and>
   fresh_for_mapping example_builder {3} example_fnode \<and>
   output_sockets_single (fst (add_function example_builder example_fn)) {3} \<and>
   (\<exists>b' node' socket. add_dummy example_builder example_fnode = Inr (b', node') \<and>
       output_sockets_single b' {3} \<and>
       m_socket_by_fsocket b' 3 = [socket] \<and>
       lookup_socket_output b' \<lparr>fsocket_id = 3, fsocket_name = ''r'', fsocket_is_input = False\<rparr> = Some socket)"
proof -
  have single: "output_sockets_single example_builder {3}"
    by (simp add: output_sockets_single_def example_builder_def new_builder_def)
  have outs: "data_sockets example_builder (fnode_outputs example_fnode) =
      [\<lparr>fsocket_id = 3, fsocket_name = ''r'', fsocket_is_input = False\<rparr>]"
    by (simp add: example_defs)
  have ins: "data_sockets example_builder (fnode_inputs example_fnode) =
      [\<lparr>fsocket_id = 0, fsocket_name = ''a'', fsocket_is_input = True\<rparr>,
       \<lparr>fsocket_id = 2, fsocket_name = ''c'', fsocket_is_input = True\<rparr>]"
    by (simp add: example_defs)
  have fresh: "fresh_for_mapping example_builder {3} example_fnode"
    unfolding fresh_for_mapping_def ins outs
    by (simp add: example_builder_def new_builder_def)
  from output_single_mapping_preserved [OF single, of example_fn example_fnode] fresh single
  show ?thesis
    unfolding outs by fastforce
qed

lemma once_dummy_builder_eval:
  "m_socket_by_fsocket once_dummy_builder = (\<lambda>f. if f = 0 then [0] else if f = 2 then [1] else if f = 3 then [2] else [])"
  "fsocket_data_types once_dummy_builder = example_types"
  "length (sockets_by_id (m_builder once_dummy_builder)) = 3"
  unfolding once_dummy_builder_def add_dummy_result
  by (simp_all add: example_defs fun_eq_iff upt_rec)

theorem add_dummy_twice_counterexample:
  "output_sockets_single once_dummy_builder {3} \<and>
   map_sum (\<lambda>e. e) fst (add_dummy once_dummy_builder example_fnode) = Inr twice_dummy_builder \<and>
   m_socket_by_fsocket twice_dummy_builder 3 = [2, 5] \<and>
   \<not> output_sockets_single twice_dummy_builder {3} \<and>
   lookup_socket_output twice_dummy_builder \<lparr>fsocket_id = 3, fsocket_name = ''r'', fsocket_is_input = False\<rparr> = None \<and>
   lookup_socket_input twice_dummy_builder \<lparr>fsocket_id = 0, fsocket_name = ''a'', fsocket_is_input = True\<rparr> = [0, 3]"
proof -
  have types: "is_data_socket once_dummy_builder = is_data_socket example_builder"
    by (simp add: fun_eq_iff is_data_socket_def try_get_data_type_def once_dummy_builder_eval
        example_builder_def new_builder_def)
  have m: "m_socket_by_fsocket twice_dummy_builder =
      (\<lambda>f. if f = 0 then [0, 3] else if f = 2 then [1, 4] else if f = 3 then [2, 5] else [])"
    unfolding twice_dummy_builder_def add_dummy_result
    by (simp add: once_dummy_builder_eval data_sockets_def types example_defs fun_eq_iff upt_rec)
  have step: "map_sum (\<lambda>e. e) fst (add_dummy once_dummy_builder example_fnode) = Inr twice_dummy_builder"
    unfolding twice_dummy_builder_def add_dummy_result by simp
  from step show ?thesis
    by (simp add: m once_dummy_builder_eval output_sockets_single_def lookup_socket_output_def
        lookup_socket_input_def)
qed

end
